theory Spec2Isabelle
  imports Main
begin

section \<open>Data model\<close>

text \<open>
  Identifiers (UUIDs) and timestamps are natural numbers; only equality of identifiers
  and the value a clock read returned matter to the code modelled here.
\<close>

type_synonym uuid = nat
type_synonym timestamp = nat

text \<open>
  A payload returned by the gateway: any JSON value. A Python \<open>dict\<close> is an association
  list read with \<open>map_of\<close> (the first binding of a key is the one \<open>dict.get\<close> sees).
\<close>

datatype json =
    JNull
  | JBool bool
  | JNum int
  | JStr string
  | JList "json list"
  | JDict "(string \<times> json) list"

text \<open>\<open>app.models.gateways.Gateway\<close>: the columns the lifecycle service reads.\<close>

record gateway =
  gw_id :: uuid
  gw_organization_id :: uuid
  gw_name :: string
  gw_url :: "string option"
  gw_token :: "string option"

text \<open>\<open>app.models.agents.Agent\<close>: the columns the lifecycle service reads or writes.\<close>

record agent =
  ag_id :: uuid
  ag_name :: string
  ag_status :: string
  ag_board_id :: "uuid option"
  ag_gateway_id :: uuid
  ag_is_board_lead :: bool
  ag_openclaw_session_id :: "string option"
  ag_agent_token_hash :: "string option"
  ag_heartbeat_config :: "json option"
  ag_identity_profile :: "(string \<times> string) list option"
  ag_provision_requested_at :: "timestamp option"
  ag_provision_action :: "string option"
  ag_updated_at :: timestamp


text \<open>\<open>app.models.tasks.Task\<close>, \<open>ActivityEvent\<close> and \<open>Approval\<close>: the columns that
  \<open>clear_agent_foreign_keys\<close> filters on or assigns.\<close>

record task =
  task_id :: uuid
  task_status :: string
  task_assigned_agent_id :: "uuid option"
  task_in_progress_at :: "timestamp option"
  task_updated_at :: timestamp

record activity_event =
  ev_id :: uuid
  ev_agent_id :: "uuid option"

record approval =
  ap_id :: uuid
  ap_agent_id :: "uuid option"

text \<open>\<open>Board\<close> and \<open>BoardOnboardingSession\<close>, as the onboarding dispatcher reads them.\<close>

record board =
  bd_id :: uuid
  bd_gateway_id :: "uuid option"

record board_onboarding_session =
  ob_id :: uuid
  ob_session_key :: string

text \<open>\<open>GatewayClientConfig(url=..., token=...)\<close>.\<close>

record gateway_config =
  cfg_url :: string
  cfg_token :: "string option"

section \<open>Exceptions\<close>

text \<open>
  The exception classes the two services tell apart. \<open>TimeoutError\<close> is a subclass of
  \<open>OSError\<close> in Python 3; \<open>OtherException\<close> stands for any other subclass of
  \<open>Exception\<close>; \<open>CancelledError\<close> derives from \<open>BaseException\<close> only, so a handler
  for \<open>Exception\<close> does not catch it.
\<close>

datatype exc =
    OpenClawGatewayError string
  | TimeoutError string
  | OSError string
  | RuntimeError string
  | ValueError string
  | HTTPException nat string
  | OtherException string
  | CancelledError

fun isinstance_OpenClawGatewayError :: "exc \<Rightarrow> bool" where
  "isinstance_OpenClawGatewayError (OpenClawGatewayError _) = True"
| "isinstance_OpenClawGatewayError _ = False"

fun isinstance_TimeoutError :: "exc \<Rightarrow> bool" where
  "isinstance_TimeoutError (TimeoutError _) = True"
| "isinstance_TimeoutError _ = False"

fun isinstance_OSError :: "exc \<Rightarrow> bool" where
  "isinstance_OSError (OSError _) = True"
| "isinstance_OSError (TimeoutError _) = True"
| "isinstance_OSError _ = False"

fun isinstance_RuntimeError :: "exc \<Rightarrow> bool" where
  "isinstance_RuntimeError (RuntimeError _) = True"
| "isinstance_RuntimeError _ = False"

fun isinstance_ValueError :: "exc \<Rightarrow> bool" where
  "isinstance_ValueError (ValueError _) = True"
| "isinstance_ValueError _ = False"

fun isinstance_Exception :: "exc \<Rightarrow> bool" where
  "isinstance_Exception CancelledError = False"
| "isinstance_Exception _ = True"

text \<open>\<open>GatewayOperation\<close>: the two members the onboarding dispatcher names.\<close>

datatype gateway_operation = ONBOARDING_START_DISPATCH | ONBOARDING_ANSWER_DISPATCH

section \<open>Effects: remote calls, the database session, clock and randomness\<close>

text \<open>
  A call that leaves the process. \<open>OpenclawCall\<close> is \<open>openclaw_call(method, config=...)\<close>;
  \<open>ProvisionMainAgent\<close> is \<open>provision_main_agent(agent, MainAgentProvisionRequest(gateway,
  auth_token, user, session_key, ProvisionOptions(action)))\<close>; \<open>EnsureSession\<close> is
  \<open>ensure_session(session_key, config=..., label=...)\<close>; \<open>SendMessage\<close> is
  \<open>send_message(text, session_key=..., config=..., deliver=...)\<close>;
  \<open>DispatchGatewayMessage\<close> is \<open>_dispatch_gateway_message(session_key, config, agent_name,
  message, deliver)\<close> of the messaging base class.
\<close>

datatype rcall =
    OpenclawCall string gateway_config
  | ProvisionMainAgent agent gateway string "uuid option" string string
  | EnsureSession string gateway_config string
  | SendMessage string string gateway_config bool
  | DispatchGatewayMessage string gateway_config string string bool

datatype event = Commit | Remote rcall

datatype log_level = LEVEL5 | INFO | WARNING | ERROR | CRITICAL

text \<open>
  The four tables. \<open>session\<close> is the database as the open session sees it (its objects,
  with every staged change: the session flushes before it queries); \<open>committed\<close> is what
  a commit has made durable. An agent object is referred to by its position in \<open>agents\<close>:
  the service mutates the object it was handed, and two references to one position alias.
\<close>

record db =
  agents :: "agent list"
  tasks :: "task list"
  activity_events :: "activity_event list"
  approvals :: "approval list"

record world =
  session :: db
  committed :: db
  trace :: "event list"
  logs :: "(log_level \<times> string) list"
  clock_reads :: nat
  tokens_drawn :: nat
  uuids_drawn :: nat

text \<open>\<open>AbstractGatewayMainAgentManager\<close> and its default implementation.\<close>

record main_agent_manager =
  build_main_agent_name :: "gateway \<Rightarrow> string"
  build_identity_profile :: "(string \<times> string) list"

definition DefaultGatewayMainAgentManager :: main_agent_manager where
  "DefaultGatewayMainAgentManager =
     \<lparr> build_main_agent_name = (\<lambda>gateway. gw_name gateway @ '' Gateway Agent''),
       build_identity_profile =
         [(''role'', ''Gateway Agent''),
          (''communication_style'', ''direct, concise, practical''),
          (''emoji'', '':compass:'')] \<rparr>"

text \<open>
  The collaborators whose code is outside the service: the identity derivations of
  \<open>GatewayAgentIdentity\<close>, the heartbeat template, the credential helpers, the clock,
  \<open>uuid4\<close>, the gateway client, the error mapping and the board precondition helper.
  They are parameters. The \<open>n\<close>-th read of the clock returns \<open>clock n\<close>, the \<open>n\<close>-th
  token generated is \<open>token_source n\<close>, the \<open>n\<close>-th fresh identifier is \<open>uuid_source n\<close>;
  what a remote call answers may depend on everything that happened before it.
\<close>

record deps =
  session_key :: "gateway \<Rightarrow> string"
  openclaw_agent_id :: "gateway \<Rightarrow> string"
  DEFAULT_HEARTBEAT_CONFIG :: json
  hash_agent_token :: "string \<Rightarrow> string"
  token_source :: "nat \<Rightarrow> string"
  clock :: "nat \<Rightarrow> timestamp"
  uuid_source :: "nat \<Rightarrow> uuid"
  remote :: "event list \<Rightarrow> rcall \<Rightarrow> exc + json"
  map_gateway_error_to_http_exception :: "gateway_operation \<Rightarrow> exc \<Rightarrow> exc"
  require_gateway_config_for_board :: "board \<Rightarrow> exc + gateway \<times> gateway_config"
  main_agent_manager :: main_agent_manager

definition utcnow :: "deps \<Rightarrow> world \<Rightarrow> timestamp \<times> world" where
  "utcnow D w = (clock D (clock_reads w), w\<lparr>clock_reads := Suc (clock_reads w)\<rparr>)"

definition generate_agent_token :: "deps \<Rightarrow> world \<Rightarrow> string \<times> world" where
  "generate_agent_token D w =
     (token_source D (tokens_drawn w), w\<lparr>tokens_drawn := Suc (tokens_drawn w)\<rparr>)"

definition uuid4 :: "deps \<Rightarrow> world \<Rightarrow> uuid \<times> world" where
  "uuid4 D w = (uuid_source D (uuids_drawn w), w\<lparr>uuids_drawn := Suc (uuids_drawn w)\<rparr>)"

text \<open>A log record keeps the level and the event name of the message; the formatted
  arguments are left out.\<close>

definition log_msg :: "log_level \<Rightarrow> string \<Rightarrow> world \<Rightarrow> world" where
  "log_msg lvl msg w = w\<lparr>logs := logs w @ [(lvl, msg)]\<rparr>"

definition call_remote :: "deps \<Rightarrow> rcall \<Rightarrow> world \<Rightarrow> (exc + json) \<times> world" where
  "call_remote D c w = (remote D (trace w) c, w\<lparr>trace := trace w @ [Remote c]\<rparr>)"

text \<open>\<open>session.commit()\<close>: everything staged in the session becomes durable.\<close>

definition commit :: "world \<Rightarrow> world" where
  "commit w = w\<lparr>committed := session w, trace := trace w @ [Commit]\<rparr>"

definition agent_at :: "world \<Rightarrow> nat \<Rightarrow> agent" where
  "agent_at w r = agents (session w) ! r"

definition store_agent :: "nat \<Rightarrow> agent \<Rightarrow> world \<Rightarrow> world" where
  "store_agent r a w = w\<lparr>session := (session w)\<lparr>agents := (agents (session w))[r := a]\<rparr>\<rparr>"

text \<open>\<open>session.add(agent)\<close> for a new object: it joins the session's view; the reference
  returned is its position.\<close>

definition session_add_new :: "agent \<Rightarrow> world \<Rightarrow> nat \<times> world" where
  "session_add_new a w =
     (length (agents (session w)),
      w\<lparr>session := (session w)\<lparr>agents := agents (session w) @ [a]\<rparr>\<rparr>)"

text \<open>\<open>session.add(agent)\<close> for an object the session already holds changes nothing.\<close>

definition session_add :: "nat \<Rightarrow> world \<Rightarrow> world" where
  "session_add r w = w"

text \<open>\<open>session.refresh(agent)\<close>: the object's columns are read back from the database.\<close>

definition refresh :: "nat \<Rightarrow> world \<Rightarrow> world" where
  "refresh r w =
     (if r < length (agents (committed w)) then store_agent r (agents (committed w) ! r) w
      else w)"


section \<open>Python helpers\<close>

text \<open>Truth value of an optional string (\<open>not gateway.url\<close>, \<open>bool(agent.agent_token_hash)\<close>):
  \<open>None\<close> and the empty string are false.\<close>

fun truthy_str :: "string option \<Rightarrow> bool" where
  "truthy_str None = False"
| "truthy_str (Some s) = (s \<noteq> [])"

text \<open>Truth value of a JSON value, as the operator \<open>or\<close> tests it.\<close>

fun truthy :: "json \<Rightarrow> bool" where
  "truthy JNull = False"
| "truthy (JBool b) = b"
| "truthy (JNum n) = (n \<noteq> 0)"
| "truthy (JStr s) = (s \<noteq> [])"
| "truthy (JList xs) = (xs \<noteq> [])"
| "truthy (JDict kv) = (kv \<noteq> [])"

text \<open>\<open>str.strip()\<close>: the characters \<open>str.isspace\<close> accepts below code point 256.\<close>

definition is_space :: "char \<Rightarrow> bool" where
  "is_space c =
     ((of_char c :: nat) \<in> {9, 10, 11, 12, 13, 28, 29, 30, 31, 32, 133, 160})"

definition strip :: "string \<Rightarrow> string" where
  "strip s = rev (dropWhile is_space (rev (dropWhile is_space s)))"

text \<open>\<open>dict.get(key)\<close>: \<open>None\<close> for a missing key.\<close>

definition dict_get :: "(string \<times> json) list \<Rightarrow> string \<Rightarrow> json" where
  "dict_get d key = (case map_of d key of None \<Rightarrow> JNull | Some v \<Rightarrow> v)"

section \<open>GatewayAdminLifecycleService\<close>

definition is_main_agent_of :: "gateway \<Rightarrow> agent \<Rightarrow> bool" where
  "is_main_agent_of gateway a = (ag_gateway_id a = gw_id gateway \<and> ag_board_id a = None)"

fun first_index :: "('a \<Rightarrow> bool) \<Rightarrow> 'a list \<Rightarrow> nat option" where
  "first_index P [] = None"
| "first_index P (x # xs) = (if P x then Some 0 else map_option Suc (first_index P xs))"

text \<open>\<open>find_main_agent\<close>: the first agent of the gateway whose board is absent, as a
  reference into the session.\<close>

definition find_main_agent :: "gateway \<Rightarrow> world \<Rightarrow> nat option" where
  "find_main_agent gateway w = first_index (is_main_agent_of gateway) (agents (session w))"

text \<open>The loop over \<open>("id", "agentId", "agent_id")\<close> of \<open>extract_agent_id_from_entry\<close>.\<close>

fun first_id_under :: "(string \<times> json) list \<Rightarrow> string list \<Rightarrow> string option" where
  "first_id_under item [] = None"
| "first_id_under item (key # keys) =
     (case dict_get item key of
        JStr raw \<Rightarrow> (if strip raw \<noteq> [] then Some (strip raw) else first_id_under item keys)
      | _ \<Rightarrow> first_id_under item keys)"

fun extract_agent_id_from_entry :: "json \<Rightarrow> string option" where
  "extract_agent_id_from_entry (JStr item) =
     (let value = strip item in if value \<noteq> [] then Some value else None)"
| "extract_agent_id_from_entry (JDict item) =
     first_id_under item [''id'', ''agentId'', ''agent_id'']"
| "extract_agent_id_from_entry _ = None"

fun extract_agents_list :: "json \<Rightarrow> json list" where
  "extract_agents_list (JList payload) = payload"
| "extract_agents_list (JDict payload) =
     (let got = dict_get payload ''agents'';
          agents = (if truthy got then got else JList [])
      in case agents of JList items \<Rightarrow> items | _ \<Rightarrow> [])"
| "extract_agents_list _ = []"

text \<open>
  Modelled from the spec: the constructor of the \<open>Agent\<close> model class
  (\<open>app.models.agents\<close>). The keyword arguments are the ones \<open>upsert_main_agent_record\<close>
  passes; the identifier is a fresh UUID; the columns it does not pass start absent.
  \<open>updated_at\<close> is assigned by the caller before the object is stored or returned.
\<close>

definition Agent :: "uuid \<Rightarrow> string \<Rightarrow> string \<Rightarrow> uuid option \<Rightarrow> uuid \<Rightarrow> bool \<Rightarrow> string
    \<Rightarrow> json \<Rightarrow> (string \<times> string) list \<Rightarrow> agent" where
  "Agent new_id name status board_id gateway_id is_board_lead openclaw_session_id
         heartbeat_config identity_profile =
     \<lparr> ag_id = new_id, ag_name = name, ag_status = status, ag_board_id = board_id,
       ag_gateway_id = gateway_id, ag_is_board_lead = is_board_lead,
       ag_openclaw_session_id = Some openclaw_session_id, ag_agent_token_hash = None,
       ag_heartbeat_config = Some heartbeat_config,
       ag_identity_profile = Some identity_profile,
       ag_provision_requested_at = None, ag_provision_action = None, ag_updated_at = 0 \<rparr>"

text \<open>
  One correction of \<open>upsert_main_agent_record\<close>, \<open>if wrong: assign; changed = True\<close>,
  on the pair of the agent object and the flag \<open>changed\<close>.
\<close>

definition patch :: "(agent \<Rightarrow> bool) \<Rightarrow> (agent \<Rightarrow> agent) \<Rightarrow> agent \<times> bool \<Rightarrow> agent \<times> bool" where
  "patch wrong assign ac = (if wrong (fst ac) then (assign (fst ac), True) else ac)"

text \<open>The eight corrections, in the order of the source.\<close>

definition correct_fields :: "deps \<Rightarrow> gateway \<Rightarrow> agent \<times> bool \<Rightarrow> agent \<times> bool" where
  "correct_fields D gateway ac0 =
     (let skey = session_key D gateway;
          main_agent_name = build_main_agent_name (main_agent_manager D) gateway;
          identity_profile = build_identity_profile (main_agent_manager D);
          ac1 = patch (\<lambda>a. ag_board_id a \<noteq> None) (\<lambda>a. a\<lparr>ag_board_id := None\<rparr>) ac0;
          ac2 = patch (\<lambda>a. ag_gateway_id a \<noteq> gw_id gateway)
                  (\<lambda>a. a\<lparr>ag_gateway_id := gw_id gateway\<rparr>) ac1;
          ac3 = patch (\<lambda>a. ag_is_board_lead a) (\<lambda>a. a\<lparr>ag_is_board_lead := False\<rparr>) ac2;
          ac4 = patch (\<lambda>a. ag_name a \<noteq> main_agent_name)
                  (\<lambda>a. a\<lparr>ag_name := main_agent_name\<rparr>) ac3;
          ac5 = patch (\<lambda>a. ag_openclaw_session_id a \<noteq> Some skey)
                  (\<lambda>a. a\<lparr>ag_openclaw_session_id := Some skey\<rparr>) ac4;
          ac6 = patch (\<lambda>a. ag_heartbeat_config a = None)
                  (\<lambda>a. a\<lparr>ag_heartbeat_config := Some (DEFAULT_HEARTBEAT_CONFIG D)\<rparr>) ac5;
          ac7 = patch (\<lambda>a. ag_identity_profile a = None)
                  (\<lambda>a. a\<lparr>ag_identity_profile := Some identity_profile\<rparr>) ac6;
          ac8 = patch (\<lambda>a. ag_status a = []) (\<lambda>a. a\<lparr>ag_status := ''provisioning''\<rparr>) ac7
      in ac8)"

text \<open>
  \<open>upsert_main_agent_record\<close>: find or create, correct the fields, stamp \<open>updated_at\<close>
  when something changed. The result is the reference of the agent and \<open>changed\<close>.
\<close>

definition upsert_main_agent_record :: "deps \<Rightarrow> gateway \<Rightarrow> world \<Rightarrow> (nat \<times> bool) \<times> world" where
  "upsert_main_agent_record D gateway w =
     (let (r, changed0, w0) =
            (case find_main_agent gateway w of
               None \<Rightarrow>
                 (let (new_id, wa) = uuid4 D w;
                      (r, wb) = session_add_new
                        (Agent new_id
                           (build_main_agent_name (main_agent_manager D) gateway)
                           ''provisioning'' None (gw_id gateway) False
                           (session_key D gateway) (DEFAULT_HEARTBEAT_CONFIG D)
                           (build_identity_profile (main_agent_manager D))) wa
                  in (r, True, wb))
             | Some r \<Rightarrow> (r, False, w));
          (a, changed) = correct_fields D gateway (agent_at w0 r, changed0);
          w1 = store_agent r a w0
      in if changed
         then (let (now, w2) = utcnow D w1;
                   w3 = store_agent r (a\<lparr>ag_updated_at := now\<rparr>) w2
               in ((r, True), session_add r w3))
         else ((r, False), w1))"

text \<open>The scan of \<open>gateway_has_main_agent_entry\<close> over the extracted entries.\<close>

fun roster_has :: "string \<Rightarrow> json list \<Rightarrow> bool" where
  "roster_has target_id [] = False"
| "roster_has target_id (item # items) =
     (if extract_agent_id_from_entry item = Some target_id then True
      else roster_has target_id items)"

definition gateway_has_main_agent_entry :: "deps \<Rightarrow> gateway \<Rightarrow> world \<Rightarrow> (exc + bool) \<times> world" where
  "gateway_has_main_agent_entry D gateway w =
     (case gw_url gateway of
        None \<Rightarrow> (Inr False, w)
      | Some u \<Rightarrow>
          if u = [] then (Inr False, w)
          else (let config = \<lparr>cfg_url = u, cfg_token = gw_token gateway\<rparr>;
                    target_id = openclaw_agent_id D gateway
                in case call_remote D (OpenclawCall ''agents.list'' config) w of
                     (Inl e, w1) \<Rightarrow>
                       if isinstance_OpenClawGatewayError e then (Inr True, w1) else (Inl e, w1)
                   | (Inr payload, w1) \<Rightarrow>
                       (Inr (roster_has target_id (extract_agents_list payload)), w1)))"


definition modify_agent :: "nat \<Rightarrow> (agent \<Rightarrow> agent) \<Rightarrow> world \<Rightarrow> world" where
  "modify_agent r f w = store_agent r (f (agent_at w r)) w"

definition provision_message :: "string \<Rightarrow> string" where
  "provision_message agent_name =
     ''Hello '' @ agent_name @ ''. Your gateway provisioning was updated.''
       @ [CHR 0x0A, CHR 0x0A]
       @ ''Please re-read AGENTS.md, USER.md, HEARTBEAT.md, and TOOLS.md. ''
       @ ''If BOOTSTRAP.md exists, run it once then delete it. ''
       @ ''Begin heartbeats after startup.''"

text \<open>
  The body of the \<open>try\<close> of \<open>provision_main_agent_record\<close>: the first call that raises
  ends it with that exception.
\<close>

definition provision_remote :: "deps \<Rightarrow> gateway \<Rightarrow> string \<Rightarrow> nat \<Rightarrow> uuid option \<Rightarrow> string
    \<Rightarrow> bool \<Rightarrow> string \<Rightarrow> string \<Rightarrow> world \<Rightarrow> (exc + unit) \<times> world" where
  "provision_remote D gateway u r user action notify skey raw_token w =
     (let config = \<lparr>cfg_url = u, cfg_token = gw_token gateway\<rparr> in
      case call_remote D
             (ProvisionMainAgent (agent_at w r) gateway raw_token user skey action) w of
        (Inl e, w1) \<Rightarrow> (Inl e, w1)
      | (Inr _, w1) \<Rightarrow>
          (case call_remote D (EnsureSession skey config (ag_name (agent_at w1 r))) w1 of
             (Inl e, w2) \<Rightarrow> (Inl e, w2)
           | (Inr _, w2) \<Rightarrow>
               if notify
               then (case call_remote D
                            (SendMessage (provision_message (ag_name (agent_at w2 r)))
                               skey config True) w2 of
                       (Inl e, w3) \<Rightarrow> (Inl e, w3)
                     | (Inr _, w3) \<Rightarrow>
                         (Inr (), log_msg INFO ''gateway.main_agent.provision_success'' w3))
               else (Inr (), log_msg INFO ''gateway.main_agent.provision_success'' w2)))"

text \<open>
  The statements of \<open>provision_main_agent_record\<close> that precede the test of the gateway
  URL: a token is generated and its hash, the two stamps and the action are assigned to
  the agent object; the heartbeat template is filled in when absent; the session is
  committed and the object refreshed. The result is the raw token and the world.
\<close>

definition provision_local :: "deps \<Rightarrow> nat \<Rightarrow> string \<Rightarrow> world \<Rightarrow> string \<times> world" where
  "provision_local D r action w =
     (let (raw_token, w1) = generate_agent_token D w;
          w2 = modify_agent r
                 (\<lambda>a. a\<lparr>ag_agent_token_hash := Some (hash_agent_token D raw_token)\<rparr>) w1;
          (t1, w3) = utcnow D w2;
          w4 = modify_agent r (\<lambda>a. a\<lparr>ag_provision_requested_at := Some t1\<rparr>) w3;
          w5 = modify_agent r (\<lambda>a. a\<lparr>ag_provision_action := Some action\<rparr>) w4;
          (t2, w6) = utcnow D w5;
          w7 = modify_agent r (\<lambda>a. a\<lparr>ag_updated_at := t2\<rparr>) w6;
          w8 = (if ag_heartbeat_config (agent_at w7 r) = None
                then modify_agent r
                       (\<lambda>a. a\<lparr>ag_heartbeat_config := Some (DEFAULT_HEARTBEAT_CONFIG D)\<rparr>) w7
                else w7);
          w9 = session_add r w8;
          w10 = commit w9;
          w11 = refresh r w10
      in (raw_token, w11))"

text \<open>
  \<open>provision_main_agent_record\<close>. The three handlers log and fall through to
  \<open>return agent\<close>; an exception outside \<open>Exception\<close> meets no handler.
\<close>

definition provision_main_agent_record :: "deps \<Rightarrow> gateway \<Rightarrow> nat \<Rightarrow> uuid option \<Rightarrow> string
    \<Rightarrow> bool \<Rightarrow> world \<Rightarrow> (exc + nat) \<times> world" where
  "provision_main_agent_record D gateway r user action notify w =
     (let skey = session_key D gateway;
          (raw_token, w11) = provision_local D r action w
      in case gw_url gateway of
           None \<Rightarrow> (Inr r, w11)
         | Some u \<Rightarrow>
             if u = [] then (Inr r, w11)
             else (case provision_remote D gateway u r user action notify skey raw_token w11 of
                     (Inr _, w12) \<Rightarrow> (Inr r, w12)
                   | (Inl e, w12) \<Rightarrow>
                       if isinstance_OpenClawGatewayError e
                       then (Inr r,
                             log_msg WARNING ''gateway.main_agent.provision_failed_gateway'' w12)
                       else if isinstance_OSError e \<or> isinstance_RuntimeError e
                               \<or> isinstance_ValueError e
                       then (Inr r, log_msg ERROR ''gateway.main_agent.provision_failed'' w12)
                       else if isinstance_Exception e
                       then (Inr r,
                             log_msg CRITICAL ''gateway.main_agent.provision_failed_unexpected'' w12)
                       else (Inl e, w12)))"

text \<open>\<open>ensure_main_agent\<close>: reconcile, then always provision with \<open>notify=True\<close>.\<close>

definition ensure_main_agent :: "deps \<Rightarrow> gateway \<Rightarrow> uuid option \<Rightarrow> string \<Rightarrow> world
    \<Rightarrow> (exc + nat) \<times> world" where
  "ensure_main_agent D gateway auth_user action w =
     (let w0 = log_msg LEVEL5 ''gateway.main_agent.ensure.start'' w;
          ((agent, _), w1) = upsert_main_agent_record D gateway w0
      in provision_main_agent_record D gateway agent auth_user action True w1)"



text \<open>
  Modelled from the spec: \<open>crud.update_where(session, model, *predicates, commit,
  **field_updates)\<close>, the bulk conditional update of \<open>app.db.crud\<close>: every row of the
  table that satisfies the predicates gets the field updates; the session is committed only
  when \<open>commit\<close> is true. One instance per table.
\<close>

definition update_rows :: "('a \<Rightarrow> bool) \<Rightarrow> ('a \<Rightarrow> 'a) \<Rightarrow> 'a list \<Rightarrow> 'a list" where
  "update_rows p f rows = map (\<lambda>row. if p row then f row else row) rows"

definition update_where_Task :: "(task \<Rightarrow> bool) \<Rightarrow> (task \<Rightarrow> task) \<Rightarrow> bool \<Rightarrow> world \<Rightarrow> world" where
  "update_where_Task p f do_commit w =
     (let w' = w\<lparr>session := (session w)\<lparr>tasks := update_rows p f (tasks (session w))\<rparr>\<rparr>
      in if do_commit then commit w' else w')"

definition update_where_ActivityEvent :: "(activity_event \<Rightarrow> bool)
    \<Rightarrow> (activity_event \<Rightarrow> activity_event) \<Rightarrow> bool \<Rightarrow> world \<Rightarrow> world" where
  "update_where_ActivityEvent p f do_commit w =
     (let w' = w\<lparr>session := (session w)
                  \<lparr>activity_events := update_rows p f (activity_events (session w))\<rparr>\<rparr>
      in if do_commit then commit w' else w')"

definition update_where_Approval :: "(approval \<Rightarrow> bool) \<Rightarrow> (approval \<Rightarrow> approval) \<Rightarrow> bool
    \<Rightarrow> world \<Rightarrow> world" where
  "update_where_Approval p f do_commit w =
     (let w' = w\<lparr>session := (session w)\<lparr>approvals := update_rows p f (approvals (session w))\<rparr>\<rparr>
      in if do_commit then commit w' else w')"

definition clear_agent_foreign_keys :: "deps \<Rightarrow> uuid \<Rightarrow> world \<Rightarrow> world" where
  "clear_agent_foreign_keys D agent_id w =
     (let (now, w1) = utcnow D w;
          w2 = update_where_Task
                 (\<lambda>t. task_assigned_agent_id t = Some agent_id \<and> task_status t = ''in_progress'')
                 (\<lambda>t. t\<lparr>task_assigned_agent_id := None, task_status := ''inbox'',
                         task_in_progress_at := None, task_updated_at := now\<rparr>)
                 False w1;
          w3 = update_where_Task
                 (\<lambda>t. task_assigned_agent_id t = Some agent_id \<and> task_status t \<noteq> ''in_progress'')
                 (\<lambda>t. t\<lparr>task_assigned_agent_id := None, task_updated_at := now\<rparr>)
                 False w2;
          w4 = update_where_ActivityEvent
                 (\<lambda>e. ev_agent_id e = Some agent_id) (\<lambda>e. e\<lparr>ev_agent_id := None\<rparr>) False w3;
          w5 = update_where_Approval
                 (\<lambda>p. ap_agent_id p = Some agent_id) (\<lambda>p. p\<lparr>ap_agent_id := None\<rparr>) False w4
      in w5)"

section \<open>BoardOnboardingMessagingService\<close>

text \<open>
  The shape shared by \<open>dispatch_start_prompt\<close> and \<open>dispatch_answer\<close>: send through
  \<open>_dispatch_gateway_message\<close>; a gateway error or a timeout is logged and raised again
  through the error mapping of the operation; any other exception is raised again as it
  is (after a critical log record when it is an \<open>Exception\<close>). An exception of
  \<open>require_gateway_config_for_board\<close> is raised outside the \<open>try\<close>. The correlation id
  only feeds the trace id of the log records, whose arguments are not kept, so the
  parameter is left out.
\<close>

definition dispatch_start_prompt :: "deps \<Rightarrow> board \<Rightarrow> string \<Rightarrow> world \<Rightarrow> (exc + string) \<times> world" where
  "dispatch_start_prompt D brd prompt w =
     (let w0 = log_msg LEVEL5 ''gateway.onboarding.start_dispatch.start'' w in
      case require_gateway_config_for_board D brd of
        Inl e \<Rightarrow> (Inl e, w0)
      | Inr (gateway, config) \<Rightarrow>
          (let skey = session_key D gateway in
           case call_remote D
                  (DispatchGatewayMessage skey config ''Gateway Agent'' prompt False) w0 of
             (Inl e, w1) \<Rightarrow>
               if isinstance_OpenClawGatewayError e \<or> isinstance_TimeoutError e
               then (Inl (map_gateway_error_to_http_exception D ONBOARDING_START_DISPATCH e),
                     log_msg ERROR ''gateway.onboarding.start_dispatch.failed'' w1)
               else if isinstance_Exception e
               then (Inl e,
                     log_msg CRITICAL ''gateway.onboarding.start_dispatch.failed_unexpected'' w1)
               else (Inl e, w1)
           | (Inr _, w1) \<Rightarrow>
               (Inr skey, log_msg INFO ''gateway.onboarding.start_dispatch.success'' w1)))"

definition dispatch_answer :: "deps \<Rightarrow> board \<Rightarrow> board_onboarding_session \<Rightarrow> string \<Rightarrow> world
    \<Rightarrow> (exc + unit) \<times> world" where
  "dispatch_answer D brd onboarding answer_text w =
     (let w0 = log_msg LEVEL5 ''gateway.onboarding.answer_dispatch.start'' w in
      case require_gateway_config_for_board D brd of
        Inl e \<Rightarrow> (Inl e, w0)
      | Inr (_, config) \<Rightarrow>
          (case call_remote D
                  (DispatchGatewayMessage (ob_session_key onboarding) config ''Gateway Agent''
                     answer_text False) w0 of
             (Inl e, w1) \<Rightarrow>
               if isinstance_OpenClawGatewayError e \<or> isinstance_TimeoutError e
               then (Inl (map_gateway_error_to_http_exception D ONBOARDING_ANSWER_DISPATCH e),
                     log_msg ERROR ''gateway.onboarding.answer_dispatch.failed'' w1)
               else if isinstance_Exception e
               then (Inl e,
                     log_msg CRITICAL ''gateway.onboarding.answer_dispatch.failed_unexpected'' w1)
               else (Inl e, w1)
           | (Inr _, w1) \<Rightarrow>
               (Inr (), log_msg INFO ''gateway.onboarding.answer_dispatch.success'' w1)))"

section \<open>Notions used to state the properties\<close>

text \<open>An agent on which none of the eight corrections fires.\<close>

definition reconciled :: "deps \<Rightarrow> gateway \<Rightarrow> agent \<Rightarrow> bool" where
  "reconciled D gateway a =
     (ag_board_id a = None \<and> ag_gateway_id a = gw_id gateway \<and> \<not> ag_is_board_lead a
      \<and> ag_name a = build_main_agent_name (main_agent_manager D) gateway
      \<and> ag_openclaw_session_id a = Some (session_key D gateway)
      \<and> ag_heartbeat_config a \<noteq> None \<and> ag_identity_profile a \<noteq> None
      \<and> ag_status a \<noteq> [])"

text \<open>The agent the eight corrections leave, in closed form.\<close>

definition corrected :: "deps \<Rightarrow> gateway \<Rightarrow> agent \<Rightarrow> agent" where
  "corrected D gateway a =
     a\<lparr> ag_board_id := None, ag_gateway_id := gw_id gateway, ag_is_board_lead := False,
        ag_name := build_main_agent_name (main_agent_manager D) gateway,
        ag_openclaw_session_id := Some (session_key D gateway),
        ag_heartbeat_config :=
          Some (case ag_heartbeat_config a of
                  None \<Rightarrow> DEFAULT_HEARTBEAT_CONFIG D | Some h \<Rightarrow> h),
        ag_identity_profile :=
          Some (case ag_identity_profile a of
                  None \<Rightarrow> build_identity_profile (main_agent_manager D) | Some p \<Rightarrow> p),
        ag_status := (if ag_status a = [] then ''provisioning'' else ag_status a) \<rparr>"

text \<open>The agent a first reconciliation of a gateway creates.\<close>

definition new_main_agent :: "deps \<Rightarrow> gateway \<Rightarrow> world \<Rightarrow> agent" where
  "new_main_agent D g w =
     (Agent (uuid_source D (uuids_drawn w)) (build_main_agent_name (main_agent_manager D) g)
        ''provisioning'' None (gw_id g) False (session_key D g) (DEFAULT_HEARTBEAT_CONFIG D)
        (build_identity_profile (main_agent_manager D)))
     \<lparr>ag_updated_at := clock D (clock_reads w)\<rparr>"

text \<open>The main agents of a gateway that the session sees.\<close>

definition main_agents_of :: "gateway \<Rightarrow> world \<Rightarrow> agent list" where
  "main_agents_of gateway w = filter (is_main_agent_of gateway) (agents (session w))"

text \<open>A sequence of reconciliations, one per gateway of the list, in order.\<close>

fun upsert_many :: "deps \<Rightarrow> gateway list \<Rightarrow> world \<Rightarrow> world" where
  "upsert_many D [] w = w"
| "upsert_many D (gateway # gateways) w =
     upsert_many D gateways (snd (upsert_main_agent_record D gateway w))"

fun is_send_message :: "event \<Rightarrow> bool" where
  "is_send_message (Remote (SendMessage _ _ _ _)) = True"
| "is_send_message _ = False"

fun is_remote :: "event \<Rightarrow> bool" where
  "is_remote (Remote _) = True"
| "is_remote Commit = False"

text \<open>The agent the local steps of \<open>provision_main_agent_record\<close> leave, in closed form:
  the credential of the token drawn, the two stamps and the action.\<close>

definition provisioned_agent :: "deps \<Rightarrow> string \<Rightarrow> world \<Rightarrow> agent \<Rightarrow> agent" where
  "provisioned_agent D action w a =
     a\<lparr> ag_agent_token_hash := Some (hash_agent_token D (token_source D (tokens_drawn w))),
        ag_heartbeat_config :=
          Some (case ag_heartbeat_config a of
                  None \<Rightarrow> DEFAULT_HEARTBEAT_CONFIG D | Some h \<Rightarrow> h),
        ag_provision_requested_at := Some (clock D (clock_reads w)),
        ag_provision_action := Some action,
        ag_updated_at := clock D (Suc (clock_reads w)) \<rparr>"

text \<open>The world when the local steps are done: the agent stored, the session committed.\<close>

definition locally_provisioned :: "deps \<Rightarrow> nat \<Rightarrow> string \<Rightarrow> world \<Rightarrow> world" where
  "locally_provisioned D r action w =
     w\<lparr> session := (session w)
           \<lparr>agents := (agents (session w))[r := provisioned_agent D action w (agent_at w r)]\<rparr>,
        committed := (session w)
           \<lparr>agents := (agents (session w))[r := provisioned_agent D action w (agent_at w r)]\<rparr>,
        trace := trace w @ [Commit],
        clock_reads := Suc (Suc (clock_reads w)),
        tokens_drawn := Suc (tokens_drawn w) \<rparr>"

section \<open>A concrete deployment\<close>

definition edge_gateway :: gateway where
  "edge_gateway = \<lparr> gw_id = 1, gw_organization_id = 7, gw_name = ''edge'',
                     gw_url = Some ''ws://edge:18789'', gw_token = Some ''s3cret'' \<rparr>"

definition lab_gateway :: gateway where
  "lab_gateway = \<lparr> gw_id = 2, gw_organization_id = 7, gw_name = ''lab'',
                    gw_url = Some ''ws://lab:18789'', gw_token = None \<rparr>"

definition offline_gateway :: gateway where
  "offline_gateway = \<lparr> gw_id = 3, gw_organization_id = 7, gw_name = ''offline'',
                        gw_url = None, gw_token = None \<rparr>"

definition edge_config :: gateway_config where
  "edge_config = \<lparr> cfg_url = ''ws://edge:18789'', cfg_token = Some ''s3cret'' \<rparr>"

text \<open>Collaborators for the examples, over a given behaviour of the remote side.\<close>

definition example_deps :: "(event list \<Rightarrow> rcall \<Rightarrow> exc + json) \<Rightarrow> deps" where
  "example_deps rem =
     \<lparr> session_key = (\<lambda>g. ''agent:mc-gateway-'' @ gw_name g @ '':main''),
       openclaw_agent_id = (\<lambda>g. ''mc-gateway-'' @ gw_name g),
       DEFAULT_HEARTBEAT_CONFIG = JDict [(''every'', JStr ''10m'')],
       hash_agent_token = (\<lambda>t. ''pbkdf2:'' @ t),
       token_source = (\<lambda>n. replicate (Suc n) CHR ''k''),
       clock = (\<lambda>n. 1000 + n),
       uuid_source = (\<lambda>n. 500 + n),
       remote = rem,
       map_gateway_error_to_http_exception = (\<lambda>operation e. HTTPException 502 ''Bad Gateway''),
       require_gateway_config_for_board = (\<lambda>b. Inr (edge_gateway, edge_config)),
       main_agent_manager = DefaultGatewayMainAgentManager \<rparr>"

text \<open>Three remote sides: one that fails every call with the gateway error, one whose
  every call succeeds and whose roster is the given payload, and one whose roster call
  times out.\<close>

definition remote_down :: "event list \<Rightarrow> rcall \<Rightarrow> exc + json" where
  "remote_down h c = Inl (OpenClawGatewayError ''unreachable'')"

definition remote_up :: "json \<Rightarrow> event list \<Rightarrow> rcall \<Rightarrow> exc + json" where
  "remote_up roster h c = (case c of OpenclawCall _ _ \<Rightarrow> Inr roster | _ \<Rightarrow> Inr JNull)"


definition empty_db :: db where
  "empty_db = \<lparr> agents = [], tasks = [], activity_events = [], approvals = [] \<rparr>"

definition empty_world :: world where
  "empty_world = \<lparr> session = empty_db, committed = empty_db, trace = [], logs = [],
                    clock_reads = 0, tokens_drawn = 0, uuids_drawn = 0 \<rparr>"

text \<open>A world whose only agent is the reconciled, provisioned main agent of the edge
  gateway.\<close>

definition edge_agent :: agent where
  "edge_agent = \<lparr> ag_id = 41, ag_name = ''edge Gateway Agent'', ag_status = ''online'',
       ag_board_id = None, ag_gateway_id = 1, ag_is_board_lead = False,
       ag_openclaw_session_id = Some ''agent:mc-gateway-edge:main'',
       ag_agent_token_hash = Some ''pbkdf2:old'',
       ag_heartbeat_config = Some (JDict [(''every'', JStr ''5m'')]),
       ag_identity_profile = Some [(''role'', ''Gateway Agent'')],
       ag_provision_requested_at = Some 900, ag_provision_action = Some ''provision'',
       ag_updated_at = 900 \<rparr>"

definition settled_world :: world where
  "settled_world = empty_world \<lparr> session := empty_db \<lparr> agents := [edge_agent] \<rparr>,
                                 committed := empty_db \<lparr> agents := [edge_agent] \<rparr> \<rparr>"

text \<open>The cleanup scenario: agent 41 with an in-progress task, a done task, an activity
  event and an approval; one more task belongs to another agent.\<close>

definition cleanup_db :: db where
  "cleanup_db =
     \<lparr> agents = [edge_agent],
       tasks = [\<lparr> task_id = 1, task_status = ''in_progress'', task_assigned_agent_id = Some 41,
                  task_in_progress_at = Some 950, task_updated_at = 950 \<rparr>,
                \<lparr> task_id = 2, task_status = ''done'', task_assigned_agent_id = Some 41,
                  task_in_progress_at = Some 910, task_updated_at = 930 \<rparr>,
                \<lparr> task_id = 3, task_status = ''in_progress'', task_assigned_agent_id = Some 42,
                  task_in_progress_at = Some 960, task_updated_at = 960 \<rparr>],
       activity_events = [\<lparr> ev_id = 1, ev_agent_id = Some 41 \<rparr>],
       approvals = [\<lparr> ap_id = 1, ap_agent_id = Some 41 \<rparr>] \<rparr>"

definition cleanup_world :: world where
  "cleanup_world = empty_world \<lparr> session := cleanup_db, committed := cleanup_db \<rparr>"

text \<open>A world whose only agent is a main agent of the edge gateway that carries a
  credential and an outdated name.\<close>

definition stale_world :: world where
  "stale_world =
     empty_world \<lparr> session := empty_db \<lparr> agents := [edge_agent \<lparr> ag_name := ''gw-1'' \<rparr>] \<rparr>,
                   committed := empty_db \<lparr> agents := [edge_agent \<lparr> ag_name := ''gw-1'' \<rparr>] \<rparr> \<rparr>"

text \<open>A roster that lists the edge gateway's agent, under the key \<open>agentId\<close> and with
  blanks around the identifier.\<close>

definition edge_roster :: json where
  "edge_roster =
     JDict [(''agents'',
             JList [JStr ''main'', JDict [(''agentId'', JStr '' mc-gateway-edge '')]])]"

text \<open>A remote side whose every call fails with an exception that is not the gateway
  error, and a board of the edge gateway.\<close>

definition remote_broken :: "event list \<Rightarrow> rcall \<Rightarrow> exc + json" where
  "remote_broken h c = Inl (ValueError ''malformed frame'')"

definition edge_board :: board where
  "edge_board = \<lparr> bd_id = 9, bd_gateway_id = Some 1 \<rparr>"

section \<open>Reconciliation: \<open>upsert_main_agent_record\<close>\<close>

lemma snd_patch: "snd (patch wrong assign ac) = (snd ac \<or> wrong (fst ac))"
  by (simp add: patch_def)

lemma fst_patch_board: "fst (patch (\<lambda>a. ag_board_id a \<noteq> None) (\<lambda>a. a\<lparr>ag_board_id := None\<rparr>) ac) = (fst ac)\<lparr>ag_board_id := None\<rparr>"
  by (cases "fst ac") (auto simp: patch_def)

lemma fst_patch_gateway: "fst (patch (\<lambda>a. ag_gateway_id a \<noteq> v) (\<lambda>a. a\<lparr>ag_gateway_id := v\<rparr>) ac) = (fst ac)\<lparr>ag_gateway_id := v\<rparr>"
  by (cases "fst ac") (auto simp: patch_def)

lemma fst_patch_lead: "fst (patch (\<lambda>a. ag_is_board_lead a) (\<lambda>a. a\<lparr>ag_is_board_lead := False\<rparr>) ac) = (fst ac)\<lparr>ag_is_board_lead := False\<rparr>"
  by (cases "fst ac") (auto simp: patch_def)

lemma fst_patch_name: "fst (patch (\<lambda>a. ag_name a \<noteq> v) (\<lambda>a. a\<lparr>ag_name := v\<rparr>) ac) = (fst ac)\<lparr>ag_name := v\<rparr>"
  by (cases "fst ac") (auto simp: patch_def)

lemma fst_patch_session: "fst (patch (\<lambda>a. ag_openclaw_session_id a \<noteq> Some v) (\<lambda>a. a\<lparr>ag_openclaw_session_id := Some v\<rparr>) ac) = (fst ac)\<lparr>ag_openclaw_session_id := Some v\<rparr>"
  by (cases "fst ac") (auto simp: patch_def)

lemma fst_patch_heartbeat: "fst (patch (\<lambda>a. ag_heartbeat_config a = None) (\<lambda>a. a\<lparr>ag_heartbeat_config := Some v\<rparr>) ac)
   = (fst ac)\<lparr>ag_heartbeat_config := Some (case ag_heartbeat_config (fst ac) of None \<Rightarrow> v | Some h \<Rightarrow> h)\<rparr>"
  by (cases "fst ac") (auto simp: patch_def)

lemma fst_patch_profile: "fst (patch (\<lambda>a. ag_identity_profile a = None) (\<lambda>a. a\<lparr>ag_identity_profile := Some v\<rparr>) ac)
   = (fst ac)\<lparr>ag_identity_profile := Some (case ag_identity_profile (fst ac) of None \<Rightarrow> v | Some h \<Rightarrow> h)\<rparr>"
  by (cases "fst ac") (auto simp: patch_def)

lemma fst_patch_status: "fst (patch (\<lambda>a. ag_status a = []) (\<lambda>a. a\<lparr>ag_status := v\<rparr>) ac)
   = (fst ac)\<lparr>ag_status := (if ag_status (fst ac) = [] then v else ag_status (fst ac))\<rparr>"
  by (cases "fst ac") (auto simp: patch_def)

lemmas fst_patches = fst_patch_board fst_patch_gateway fst_patch_lead fst_patch_name
  fst_patch_session fst_patch_heartbeat fst_patch_profile fst_patch_status

lemma correct_fields_fst:
  "fst (correct_fields D g ac) = corrected D g (fst ac)"
  by (simp only: correct_fields_def Let_def fst_patches) (simp add: corrected_def)

lemma correct_fields_snd:
  "snd (correct_fields D g ac) = (snd ac \<or> \<not> reconciled D g (fst ac))"
  by (simp only: correct_fields_def Let_def fst_patches snd_patch) (auto simp add: reconciled_def)

lemma corrected_reconciled: "reconciled D g (corrected D g a)"
  by (simp add: corrected_def reconciled_def)

lemma corrected_fix: "reconciled D g a \<Longrightarrow> corrected D g a = a"
  by (cases a) (auto simp add: corrected_def reconciled_def)


lemma correct_fields_eq:
  "correct_fields D g (a, c) = (corrected D g a, c \<or> \<not> reconciled D g a)"
  by (rule prod_eqI) (simp_all add: correct_fields_fst correct_fields_snd)

lemma first_index_Some:
  "first_index P xs = Some r \<Longrightarrow> r < length xs \<and> P (xs ! r)"
  by (induction xs arbitrary: r) (auto split: if_splits)

lemma first_index_None: "(first_index P xs = None) = (\<forall>x\<in>set xs. \<not> P x)"
  by (induction xs) auto

lemma first_index_update:
  "first_index P xs = Some r \<Longrightarrow> P a \<Longrightarrow> first_index P (xs[r := a]) = Some r"
  by (induction xs arbitrary: r) (auto split: if_splits)

lemma first_index_snoc:
  "first_index P xs = None \<Longrightarrow> P a \<Longrightarrow> first_index P (xs @ [a]) = Some (length xs)"
  by (induction xs) (auto split: if_splits)

lemma store_agent_same: "store_agent r (agent_at w r) w = w"
  by (simp add: store_agent_def agent_at_def)

lemma upsert_found:
  assumes "find_main_agent g w = Some r"
  shows "upsert_main_agent_record D g w =
     (if reconciled D g (agent_at w r) then ((r, False), w)
      else ((r, True),
            store_agent r ((corrected D g (agent_at w r))\<lparr>ag_updated_at := clock D (clock_reads w)\<rparr>)
              (w\<lparr>clock_reads := Suc (clock_reads w)\<rparr>)))"
proof (cases "reconciled D g (agent_at w r)")
  case True
  with assms show ?thesis
    by (simp add: upsert_main_agent_record_def correct_fields_eq Let_def corrected_fix
        store_agent_same)
next
  case False
  with assms show ?thesis
    by (simp add: upsert_main_agent_record_def correct_fields_eq Let_def
        utcnow_def session_add_def store_agent_def)
qed

lemma Agent_reconciled:
  "reconciled D g (Agent i (build_main_agent_name (main_agent_manager D) g)
        ''provisioning'' None (gw_id g) False (session_key D g) h p)"
  by (simp add: reconciled_def Agent_def)

lemma upsert_new:
  assumes "find_main_agent g w = None"
  shows "upsert_main_agent_record D g w =
     ((length (agents (session w)), True),
      w\<lparr>session := (session w)\<lparr>agents := agents (session w) @ [new_main_agent D g w]\<rparr>,
        uuids_drawn := Suc (uuids_drawn w), clock_reads := Suc (clock_reads w)\<rparr>)"
  using assms
  by (simp add: upsert_main_agent_record_def correct_fields_eq Let_def corrected_fix
      Agent_reconciled uuid4_def session_add_new_def agent_at_def
      utcnow_def session_add_def store_agent_def new_main_agent_def)


lemma corrected_is_main:
  "is_main_agent_of g ((corrected D g a)\<lparr>ag_updated_at := t\<rparr>)"
  by (simp add: corrected_def is_main_agent_of_def)

lemma corrected_stamped_reconciled:
  "reconciled D g ((corrected D g a)\<lparr>ag_updated_at := t\<rparr>)"
  by (simp add: corrected_def reconciled_def)

lemma new_main_agent_reconciled: "reconciled D g (new_main_agent D g w)"
  by (simp add: new_main_agent_def Agent_def reconciled_def)

lemma new_main_agent_is_main: "is_main_agent_of g (new_main_agent D g w)"
  by (simp add: new_main_agent_def Agent_def is_main_agent_of_def)

lemma reconciled_is_main: "reconciled D g a \<Longrightarrow> is_main_agent_of g a"
  by (simp add: reconciled_def is_main_agent_of_def)

lemma upsert_post:
  assumes "upsert_main_agent_record D g w = ((r, c), w1)"
  shows "find_main_agent g w1 = Some r \<and> reconciled D g (agent_at w1 r)"
proof (cases "find_main_agent g w")
  case None
  from assms have r: "r = length (agents (session w))"
    and w1: "agents (session w1) = agents (session w) @ [new_main_agent D g w]"
    by (auto simp: upsert_new [OF None])
  show ?thesis
    using None first_index_snoc [of "is_main_agent_of g" "agents (session w)" "new_main_agent D g w"]
    by (simp add: find_main_agent_def w1 r agent_at_def new_main_agent_reconciled
        new_main_agent_is_main)
next
  case (Some r0)
  then have r0: "r0 < length (agents (session w))"
    by (simp add: find_main_agent_def first_index_Some)
  show ?thesis
  proof (cases "reconciled D g (agent_at w r0)")
    case True
    with assms Some show ?thesis by (simp add: upsert_found [OF Some])
  next
    case False
    with assms have r: "r = r0"
      and w1: "agents (session w1) = (agents (session w))
           [r0 := (corrected D g (agent_at w r0))\<lparr>ag_updated_at := clock D (clock_reads w)\<rparr>]"
      by (auto simp: upsert_found [OF Some] store_agent_def)
    show ?thesis
      using Some r0 first_index_update [of "is_main_agent_of g" "agents (session w)" r0
          "(corrected D g (agent_at w r0))\<lparr>ag_updated_at := clock D (clock_reads w)\<rparr>"]
      by (simp add: find_main_agent_def w1 r agent_at_def corrected_is_main
          corrected_stamped_reconciled)
  qed
qed

lemma find_empty: "find_main_agent g empty_world = None"
  by (simp add: find_main_agent_def empty_world_def empty_db_def)

lemma first_call:
  "fst (upsert_main_agent_record (example_deps remote_down) edge_gateway empty_world) = (0, True)"
  by (subst upsert_new [OF find_empty]) (simp add: empty_world_def empty_db_def)

text \<open>
  Claim C1. Reconciliation is idempotent: when \<open>upsert_main_agent_record\<close> is called for
  a gateway and then called again for the same gateway with nothing in between, the second
  call returns \<open>changed = False\<close>, returns the same agent object (the same reference,
  hence the same identifier), and leaves the world as the first call left it.
\<close>

theorem upsert_main_agent_record_idempotent:
  assumes "upsert_main_agent_record D gateway w = ((r1, changed1), w1)"
    and "upsert_main_agent_record D gateway w1 = ((r2, changed2), w2)"
  shows "changed2 = False \<and> r2 = r1 \<and> ag_id (agent_at w2 r2) = ag_id (agent_at w1 r1)
         \<and> w2 = w1"
proof -
  from upsert_post [OF assms(1)]
  have f: "find_main_agent gateway w1 = Some r1" and rc: "reconciled D gateway (agent_at w1 r1)"
    by simp_all
  from assms(2) rc show ?thesis
    by (simp add: upsert_found [OF f])
qed

text \<open>On an empty database the first call creates agent 500 and reports a change; the
  second call finds it and reports none.\<close>

theorem upsert_main_agent_record_idempotent_witness:
  "fst (upsert_main_agent_record (example_deps remote_down) edge_gateway empty_world) = (0, True)
   \<and> fst (upsert_main_agent_record (example_deps remote_down) edge_gateway
            (snd (upsert_main_agent_record (example_deps remote_down) edge_gateway empty_world)))
       = (0, False)
   \<and> ag_id (agent_at (snd (upsert_main_agent_record (example_deps remote_down) edge_gateway
            (snd (upsert_main_agent_record (example_deps remote_down) edge_gateway empty_world)))) 0) = 500"
proof -
  let ?D = "example_deps remote_down"
  let ?u1 = "upsert_main_agent_record ?D edge_gateway empty_world"
  let ?u2 = "upsert_main_agent_record ?D edge_gateway (snd ?u1)"
  have 1: "?u1 = ((0, True), snd ?u1)"
    using first_call by (metis prod.collapse)
  have 2: "?u2 = ((fst (fst ?u2), snd (fst ?u2)), snd ?u2)" by simp
  have w1: "ag_id (agent_at (snd ?u1) 0) = 500"
    by (subst upsert_new [OF find_empty])
      (simp add: empty_world_def empty_db_def agent_at_def
        new_main_agent_def Agent_def example_deps_def)
  from upsert_main_agent_record_idempotent [OF 1 2] first_call w1 show ?thesis
    by (metis prod.collapse)
qed

lemma corrected_frame:
  "ag_agent_token_hash (corrected D g a) = ag_agent_token_hash a"
  "ag_id (corrected D g a) = ag_id a"
  "ag_updated_at (corrected D g a) = ag_updated_at a"
  "ag_status a \<noteq> [] \<Longrightarrow> ag_status (corrected D g a) = ag_status a"
  by (simp_all add: corrected_def)

text \<open>
  Claim C9. The frame of \<open>upsert_main_agent_record\<close>. For every agent that existed
  before the call: its credential hash is what it was; a status that was not empty is what
  it was; its \<open>updated_at\<close> differs only when the call reports \<open>changed\<close> and the agent is
  the one returned; every agent other than the one returned is untouched. When the call
  reports \<open>changed = False\<close> the whole world, hence every field of the agent, is as it was;
  when it reports \<open>changed = True\<close> the \<open>updated_at\<close> of the returned agent is the clock
  read of the call.
\<close>

theorem upsert_main_agent_record_frame:
  assumes "upsert_main_agent_record D gateway w = ((r, changed), w')"
  shows "(\<forall>j < length (agents (session w)).
            ag_agent_token_hash (agent_at w' j) = ag_agent_token_hash (agent_at w j)
          \<and> (ag_status (agent_at w j) \<noteq> [] \<longrightarrow> ag_status (agent_at w' j) = ag_status (agent_at w j))
          \<and> (ag_updated_at (agent_at w' j) \<noteq> ag_updated_at (agent_at w j) \<longrightarrow> changed \<and> j = r)
          \<and> (j \<noteq> r \<longrightarrow> agent_at w' j = agent_at w j))
       \<and> (\<not> changed \<longrightarrow> w' = w)
       \<and> (changed \<longrightarrow> ag_updated_at (agent_at w' r) = clock D (clock_reads w))"
proof (cases "find_main_agent gateway w")
  case None
  from assms have "r = length (agents (session w))" "changed"
    and "agents (session w') = agents (session w) @ [new_main_agent D gateway w]"
    by (auto simp: upsert_new [OF None])
  then show ?thesis
    by (simp add: agent_at_def nth_append new_main_agent_def)
next
  case (Some r0)
  then have r0: "r0 < length (agents (session w))"
    by (simp add: find_main_agent_def first_index_Some)
  show ?thesis
  proof (cases "reconciled D gateway (agent_at w r0)")
    case True
    with assms show ?thesis by (simp add: upsert_found [OF Some])
  next
    case False
    with assms have "r = r0" "changed"
      and "agents (session w') = (agents (session w))
           [r0 := (corrected D gateway (agent_at w r0))\<lparr>ag_updated_at := clock D (clock_reads w)\<rparr>]"
      by (auto simp: upsert_found [OF Some] store_agent_def)
    with r0 show ?thesis
      by (simp add: agent_at_def nth_list_update corrected_frame)
  qed
qed

text \<open>An agent with a credential, the status \<open>online\<close> and an outdated name: the
  reconciliation renames it, stamps it, and keeps the credential and the status.\<close>

lemma find_stale: "find_main_agent edge_gateway stale_world = Some 0"
  by (simp add: find_main_agent_def stale_world_def empty_world_def empty_db_def
      is_main_agent_of_def edge_agent_def edge_gateway_def)

lemma stale_not_reconciled:
  "\<not> reconciled (example_deps remote_down) edge_gateway (agent_at stale_world 0)"
  by (simp add: reconciled_def agent_at_def stale_world_def empty_world_def empty_db_def
      edge_agent_def edge_gateway_def example_deps_def DefaultGatewayMainAgentManager_def)

lemma stale_upsert_changed:
  "fst (upsert_main_agent_record (example_deps remote_down) edge_gateway stale_world) = (0, True)"
  by (subst upsert_found [OF find_stale]) (simp add: stale_not_reconciled)

theorem upsert_main_agent_record_frame_witness:
  "fst (upsert_main_agent_record (example_deps remote_down) edge_gateway stale_world) = (0, True)
   \<and> ag_agent_token_hash (agent_at (snd (upsert_main_agent_record (example_deps remote_down)
          edge_gateway stale_world)) 0) = Some ''pbkdf2:old''
   \<and> ag_status (agent_at (snd (upsert_main_agent_record (example_deps remote_down)
          edge_gateway stale_world)) 0) = ''online''
   \<and> ag_updated_at (agent_at (snd (upsert_main_agent_record (example_deps remote_down)
          edge_gateway stale_world)) 0) = 1000"
proof -
  let ?u = "upsert_main_agent_record (example_deps remote_down) edge_gateway stale_world"
  have u: "?u = ((0, True), snd ?u)"
    using stale_upsert_changed by (metis prod.collapse)
  have before: "length (agents (session stale_world)) = 1"
    "ag_agent_token_hash (agent_at stale_world 0) = Some ''pbkdf2:old''"
    "ag_status (agent_at stale_world 0) = ''online''"
    "clock (example_deps remote_down) (clock_reads stale_world) = 1000"
    by (simp_all add: stale_world_def empty_world_def empty_db_def agent_at_def edge_agent_def
        example_deps_def)
  from upsert_main_agent_record_frame [OF u] before stale_upsert_changed show ?thesis
    by simp
qed

lemma is_main_agent_of_cong:
  "gw_id g' = gw_id g \<Longrightarrow> is_main_agent_of g' = is_main_agent_of g"
  by (rule ext) (simp add: is_main_agent_of_def)

lemma is_main_agent_of_other:
  "gw_id g' \<noteq> gw_id g \<Longrightarrow> is_main_agent_of g' a \<Longrightarrow> \<not> is_main_agent_of g a"
  by (simp add: is_main_agent_of_def)

lemma length_filter_update:
  "r < length xs \<Longrightarrow> P y = P (xs ! r) \<Longrightarrow> length (filter P (xs[r := y])) = length (filter P xs)"
proof (induction xs arbitrary: r)
  case Nil
  then show ?case by simp
next
  case (Cons x xs)
  then show ?case by (cases r) auto
qed

lemma count_after_upsert:
  "length (main_agents_of g (snd (upsert_main_agent_record D g' w))) =
     (if gw_id g' = gw_id g \<and> main_agents_of g w = [] then 1 else length (main_agents_of g w))"
proof (cases "find_main_agent g' w")
  case None
  then have none: "\<forall>x\<in>set (agents (session w)). \<not> is_main_agent_of g' x"
    by (simp add: find_main_agent_def first_index_None)
  show ?thesis
  proof (cases "gw_id g' = gw_id g")
    case True
    with none have "filter (is_main_agent_of g) (agents (session w)) = []"
      by (simp add: is_main_agent_of_cong [OF True] filter_empty_conv)
    moreover have "is_main_agent_of g (new_main_agent D g' w)"
      using new_main_agent_is_main [of g' D w] by (simp add: is_main_agent_of_cong [OF True])
    ultimately show ?thesis using True
      by (simp add: upsert_new [OF None] main_agents_of_def)
  next
    case False
    then have "\<not> is_main_agent_of g (new_main_agent D g' w)"
      using new_main_agent_is_main [of g' D w] is_main_agent_of_other by blast
    with False show ?thesis
      by (simp add: upsert_new [OF None] main_agents_of_def)
  qed
next
  case (Some r0)
  then have r0: "r0 < length (agents (session w))"
    and m: "is_main_agent_of g' (agents (session w) ! r0)"
    by (simp_all add: find_main_agent_def first_index_Some)
  let ?y = "(corrected D g' (agent_at w r0))\<lparr>ag_updated_at := clock D (clock_reads w)\<rparr>"
  have y: "is_main_agent_of g' ?y" by (rule corrected_is_main)
  have same: "is_main_agent_of g ?y = is_main_agent_of g (agents (session w) ! r0)"
    using y m by (simp add: is_main_agent_of_def)
  have nonempty: "gw_id g' = gw_id g \<Longrightarrow> main_agents_of g w \<noteq> []"
    using m r0 by (auto simp: main_agents_of_def filter_empty_conv is_main_agent_of_def)
  show ?thesis
  proof (cases "reconciled D g' (agent_at w r0)")
    case True
    then show ?thesis using nonempty by (auto simp add: upsert_found [OF Some])
  next
    case False
    then show ?thesis using nonempty length_filter_update [OF r0 same]
      by (auto simp add: upsert_found [OF Some] main_agents_of_def store_agent_def)
  qed
qed

lemma count_after_upsert_many:
  "length (main_agents_of g (upsert_many D gs w)) =
     (if main_agents_of g w = [] \<and> (\<exists>g'\<in>set gs. gw_id g' = gw_id g) then 1
      else length (main_agents_of g w))"
proof (induction gs arbitrary: w)
  case Nil
  then show ?case by simp
next
  case (Cons g' gs)
  show ?case
    using count_after_upsert [of g D g' w]
    by (auto simp add: Cons.IH split: if_splits)
qed

text \<open>
  Claim C7. At most one main agent per gateway. Start from a world in which the session
  sees no main agent (board absent) of the gateway, and run any sequence of
  \<open>upsert_main_agent_record\<close> calls, for this gateway or for others, in which the gateway
  occurs. Afterwards the session sees exactly one main agent of the gateway: find-or-create
  never makes a second one.
\<close>

theorem one_main_agent_per_gateway:
  assumes "main_agents_of gateway w = []" and "gateway \<in> set gateways"
  shows "length (main_agents_of gateway (upsert_many D gateways w)) = 1"
  using assms by (auto simp add: count_after_upsert_many)

text \<open>Three reconciliations on an empty database, two of them for the edge gateway.\<close>

lemma no_main_agent_yet: "main_agents_of edge_gateway empty_world = []"
  by (simp add: main_agents_of_def empty_world_def empty_db_def)

theorem one_main_agent_per_gateway_witness:
  "main_agents_of edge_gateway empty_world = []
   \<and> edge_gateway \<in> set [edge_gateway, lab_gateway, edge_gateway]
   \<and> length (main_agents_of edge_gateway
        (upsert_many (example_deps remote_down) [edge_gateway, lab_gateway, edge_gateway]
           empty_world)) = 1"
  using one_main_agent_per_gateway [OF no_main_agent_yet,
      of "[edge_gateway, lab_gateway, edge_gateway]" "example_deps remote_down"]
    no_main_agent_yet
  by simp

section \<open>The remote roster check\<close>

lemma roster_has_iff:
  "roster_has t items = (\<exists>item\<in>set items. extract_agent_id_from_entry item = Some t)"
  by (induction items) auto

lemma has_entry_no_url:
  "\<not> truthy_str (gw_url gateway) \<Longrightarrow> gateway_has_main_agent_entry D gateway w = (Inr False, w)"
  by (cases "gw_url gateway") (simp_all add: gateway_has_main_agent_entry_def)

lemma has_entry_url:
  assumes "gw_url gateway = Some u" and "u \<noteq> []"
  shows "gateway_has_main_agent_entry D gateway w =
     (let c = OpenclawCall ''agents.list'' \<lparr>cfg_url = u, cfg_token = gw_token gateway\<rparr>;
          w1 = w\<lparr>trace := trace w @ [Remote c]\<rparr>
      in case remote D (trace w) c of
           Inl e \<Rightarrow> if isinstance_OpenClawGatewayError e then (Inr True, w1) else (Inl e, w1)
         | Inr payload \<Rightarrow>
             (Inr (roster_has (openclaw_agent_id D gateway) (extract_agents_list payload)), w1))"
  using assms
  by (simp add: gateway_has_main_agent_entry_def call_remote_def Let_def split: sum.splits)

text \<open>
  Claim C4. \<open>gateway_has_main_agent_entry\<close>. When the gateway has no URL (absent or
  empty) it returns false and the world is untouched: no remote call is made. When the
  \<open>agents.list\<close> call raises the gateway error it returns true. When the call returns a
  payload it returns true exactly when the identifier extracted from some entry of the
  payload (a string entry, or a record entry with an identifier under an accepted key)
  is the external agent id derived from the gateway.
\<close>

theorem gateway_has_main_agent_entry_cases:
  "(\<not> truthy_str (gw_url gateway) \<longrightarrow>
      gateway_has_main_agent_entry D gateway w = (Inr False, w))
   \<and> (\<forall>u m. gw_url gateway = Some u \<and> u \<noteq> []
          \<and> remote D (trace w)
               (OpenclawCall ''agents.list'' \<lparr>cfg_url = u, cfg_token = gw_token gateway\<rparr>)
              = Inl (OpenClawGatewayError m)
        \<longrightarrow> fst (gateway_has_main_agent_entry D gateway w) = Inr True)
   \<and> (\<forall>u payload. gw_url gateway = Some u \<and> u \<noteq> []
          \<and> remote D (trace w)
               (OpenclawCall ''agents.list'' \<lparr>cfg_url = u, cfg_token = gw_token gateway\<rparr>)
              = Inr payload
        \<longrightarrow> fst (gateway_has_main_agent_entry D gateway w)
            = Inr (\<exists>item\<in>set (extract_agents_list payload).
                     extract_agent_id_from_entry item = Some (openclaw_agent_id D gateway)))"
  by (auto simp add: has_entry_no_url has_entry_url roster_has_iff Let_def)

text \<open>A gateway without URL; an unreachable gateway; a roster that lists the edge
  gateway's agent and not the lab gateway's.\<close>

lemma strip_examples:
  "strip '' mc-gateway-edge '' = ''mc-gateway-edge''"
  "strip ''main'' = ''main''"
  "strip ''   '' = []"
  by (simp_all add: strip_def is_space_def)

lemma edge_roster_entries:
  "extract_agents_list edge_roster
     = [JStr ''main'', JDict [(''agentId'', JStr '' mc-gateway-edge '')]]"
  by (simp add: edge_roster_def dict_get_def)

theorem gateway_has_main_agent_entry_cases_witness:
  "gateway_has_main_agent_entry (example_deps remote_down) offline_gateway empty_world
     = (Inr False, empty_world)
   \<and> fst (gateway_has_main_agent_entry (example_deps remote_down) edge_gateway empty_world)
     = Inr True
   \<and> fst (gateway_has_main_agent_entry (example_deps (remote_up edge_roster)) edge_gateway
            empty_world) = Inr True
   \<and> fst (gateway_has_main_agent_entry (example_deps (remote_up edge_roster)) lab_gateway
            empty_world) = Inr False"
proof -
  have a: "\<not> truthy_str (gw_url offline_gateway)"
    by (simp add: offline_gateway_def)
  have b: "gw_url edge_gateway = Some ''ws://edge:18789'' \<and> ''ws://edge:18789'' \<noteq> []
      \<and> remote (example_deps remote_down) (trace empty_world)
           (OpenclawCall ''agents.list''
              \<lparr>cfg_url = ''ws://edge:18789'', cfg_token = gw_token edge_gateway\<rparr>)
         = Inl (OpenClawGatewayError ''unreachable'')"
    by (simp add: edge_gateway_def example_deps_def remote_down_def)
  have c: "gw_url edge_gateway = Some ''ws://edge:18789'' \<and> ''ws://edge:18789'' \<noteq> []
      \<and> remote (example_deps (remote_up edge_roster)) (trace empty_world)
           (OpenclawCall ''agents.list''
              \<lparr>cfg_url = ''ws://edge:18789'', cfg_token = gw_token edge_gateway\<rparr>)
         = Inr edge_roster"
    by (simp add: edge_gateway_def example_deps_def remote_up_def)
  have d: "gw_url lab_gateway = Some ''ws://lab:18789'' \<and> ''ws://lab:18789'' \<noteq> []
      \<and> remote (example_deps (remote_up edge_roster)) (trace empty_world)
           (OpenclawCall ''agents.list''
              \<lparr>cfg_url = ''ws://lab:18789'', cfg_token = gw_token lab_gateway\<rparr>)
         = Inr edge_roster"
    by (simp add: lab_gateway_def example_deps_def remote_up_def)
  have ids: "openclaw_agent_id (example_deps (remote_up edge_roster)) edge_gateway
               = ''mc-gateway-edge''"
    "openclaw_agent_id (example_deps (remote_up edge_roster)) lab_gateway = ''mc-gateway-lab''"
    by (simp_all add: example_deps_def edge_gateway_def lab_gateway_def)
  from gateway_has_main_agent_entry_cases
         [of offline_gateway "example_deps remote_down" empty_world] a
  have 1: "gateway_has_main_agent_entry (example_deps remote_down) offline_gateway empty_world
     = (Inr False, empty_world)" by blast
  from gateway_has_main_agent_entry_cases
         [of edge_gateway "example_deps remote_down" empty_world] b
  have 2: "fst (gateway_has_main_agent_entry (example_deps remote_down) edge_gateway empty_world)
     = Inr True" by blast
  from gateway_has_main_agent_entry_cases
         [of edge_gateway "example_deps (remote_up edge_roster)" empty_world] c
  have 3: "fst (gateway_has_main_agent_entry (example_deps (remote_up edge_roster)) edge_gateway
            empty_world) = Inr (\<exists>item\<in>set (extract_agents_list edge_roster).
                     extract_agent_id_from_entry item = Some (openclaw_agent_id (example_deps (remote_up edge_roster)) edge_gateway))" by blast
  from gateway_has_main_agent_entry_cases
         [of lab_gateway "example_deps (remote_up edge_roster)" empty_world] d
  have 4: "fst (gateway_has_main_agent_entry (example_deps (remote_up edge_roster)) lab_gateway
            empty_world) = Inr (\<exists>item\<in>set (extract_agents_list edge_roster).
                     extract_agent_id_from_entry item = Some (openclaw_agent_id (example_deps (remote_up edge_roster)) lab_gateway))" by blast
  from 1 2 3 4 show ?thesis
    by (simp add: ids edge_roster_entries dict_get_def strip_examples Let_def)
qed

lemma first_id_under_None:
  "(first_id_under d keys = None) =
     (\<forall>k\<in>set keys. \<forall>s. dict_get d k = JStr s \<longrightarrow> strip s = [])"
  by (induction keys) (auto split: json.splits)

lemma first_id_under_Some:
  "first_id_under d keys = Some v \<Longrightarrow>
     \<exists>k\<in>set keys. \<exists>s. dict_get d k = JStr s \<and> strip s = v \<and> v \<noteq> []"
  by (induction keys) (auto split: json.splits if_splits)

lemma extract_agents_list_empty:
  "(\<forall>items. payload \<noteq> JList items)
   \<Longrightarrow> (\<forall>d items. payload = JDict d \<longrightarrow> dict_get d ''agents'' \<noteq> JList items)
   \<Longrightarrow> extract_agents_list payload = []"
  by (cases payload) (auto simp: Let_def split: json.splits)

lemma extract_agent_id_None:
  "(extract_agent_id_from_entry entry = None) =
     (\<not> (\<exists>s. entry = JStr s \<and> strip s \<noteq> [])
      \<and> \<not> (\<exists>d k s. entry = JDict d \<and> k \<in> {''id'', ''agentId'', ''agent_id''}
                 \<and> dict_get d k = JStr s \<and> strip s \<noteq> []))"
  by (cases entry) (auto simp: Let_def first_id_under_None simp del: first_id_under.simps)

text \<open>
  Claim C10. Parsing the roster payload is total. \<open>extract_agents_list\<close> gives the empty
  list for every payload that is neither a list nor a record with a list under
  \<open>"agents"\<close>; \<open>extract_agent_id_from_entry\<close> gives \<open>None\<close> for every entry that is
  neither a string that is not blank nor a record with a string that is not blank under
  \<open>"id"\<close>, \<open>"agentId"\<close> or \<open>"agent_id"\<close>; and whatever payload the \<open>agents.list\<close> call
  returns, \<open>gateway_has_main_agent_entry\<close> returns a truth value and raises nothing.
\<close>

theorem roster_parsing_total:
  "((\<forall>items. payload \<noteq> JList items)
      \<and> (\<forall>d items. payload = JDict d \<longrightarrow> dict_get d ''agents'' \<noteq> JList items)
     \<longrightarrow> extract_agents_list payload = [])
   \<and> (\<not> (\<exists>s. entry = JStr s \<and> strip s \<noteq> [])
      \<and> \<not> (\<exists>d k s. entry = JDict d \<and> k \<in> {''id'', ''agentId'', ''agent_id''}
                 \<and> dict_get d k = JStr s \<and> strip s \<noteq> [])
     \<longrightarrow> extract_agent_id_from_entry entry = None)
   \<and> (\<forall>u. gw_url gateway = Some u \<and> u \<noteq> []
          \<and> remote D (trace w)
               (OpenclawCall ''agents.list'' \<lparr>cfg_url = u, cfg_token = gw_token gateway\<rparr>)
              = Inr payload
        \<longrightarrow> (\<exists>b. fst (gateway_has_main_agent_entry D gateway w) = Inr b))"
  using extract_agents_list_empty [of payload] extract_agent_id_None [of entry]
  by (auto simp add: has_entry_url Let_def)

text \<open>A payload whose \<open>"agents"\<close> is a number, and an entry whose \<open>"id"\<close> is blank.\<close>

theorem roster_parsing_total_witness:
  "extract_agents_list (JDict [(''agents'', JNum 3)]) = []
   \<and> extract_agent_id_from_entry (JDict [(''id'', JStr ''   ''), (''name'', JStr ''x'')]) = None
   \<and> (\<exists>b. fst (gateway_has_main_agent_entry
                 (example_deps (remote_up (JDict [(''agents'', JNum 3)]))) edge_gateway
                 empty_world) = Inr b)"
proof -
  let ?payload = "JDict [(''agents'', JNum 3)]"
  let ?entry = "JDict [(''id'', JStr ''   ''), (''name'', JStr ''x'')]"
  have p: "(\<forall>items. ?payload \<noteq> JList items)
      \<and> (\<forall>d items. ?payload = JDict d \<longrightarrow> dict_get d ''agents'' \<noteq> JList items)"
    by (simp add: dict_get_def)
  have e: "\<not> (\<exists>s. ?entry = JStr s \<and> strip s \<noteq> [])
      \<and> \<not> (\<exists>d k s. ?entry = JDict d \<and> k \<in> {''id'', ''agentId'', ''agent_id''}
                 \<and> dict_get d k = JStr s \<and> strip s \<noteq> [])"
    by (auto simp add: dict_get_def strip_examples)
  have r: "gw_url edge_gateway = Some ''ws://edge:18789'' \<and> ''ws://edge:18789'' \<noteq> []
      \<and> remote (example_deps (remote_up ?payload)) (trace empty_world)
           (OpenclawCall ''agents.list''
              \<lparr>cfg_url = ''ws://edge:18789'', cfg_token = gw_token edge_gateway\<rparr>)
         = Inr ?payload"
    by (simp add: edge_gateway_def example_deps_def remote_up_def)
  from roster_parsing_total [of ?payload ?entry edge_gateway
      "example_deps (remote_up ?payload)" empty_world] p e r
  show ?thesis by blast
qed

section \<open>Provisioning: \<open>provision_main_agent_record\<close>\<close>

lemma provision_local_eq:
  assumes "r < length (agents (session w))"
  shows "provision_local D r action w
           = (token_source D (tokens_drawn w), locally_provisioned D r action w)"
  using assms
  by (cases w, cases "session w", cases "agents (session w) ! r",
      cases "ag_heartbeat_config (agents (session w) ! r)")
     (simp_all add: provision_local_def Let_def generate_agent_token_def utcnow_def
        modify_agent_def store_agent_def agent_at_def session_add_def
        commit_def refresh_def locally_provisioned_def provisioned_agent_def)

lemma provision_remote_frame:
  assumes "provision_remote D g u r user action notify skey raw w = (res, w')"
  shows "session w' = session w \<and> committed w' = committed w
       \<and> clock_reads w' = clock_reads w \<and> tokens_drawn w' = tokens_drawn w
       \<and> uuids_drawn w' = uuids_drawn w
       \<and> (\<exists>es. trace w' = trace w @ es \<and> list_all is_remote es
               \<and> (\<not> notify \<longrightarrow> list_all (\<lambda>e. \<not> is_send_message e) es))
       \<and> (\<forall>e. res = Inl e \<longrightarrow> (\<exists>h c. remote D h c = Inl e))"
  using assms
  by (auto simp add: provision_remote_def call_remote_def log_msg_def Let_def
      split: sum.splits if_splits)

lemma provision_effect:
  assumes "r < length (agents (session w))"
    and "provision_main_agent_record D g r user action notify w = (res, w')"
  shows "session w' = session (locally_provisioned D r action w)
       \<and> committed w' = session w'
       \<and> clock_reads w' = Suc (Suc (clock_reads w)) \<and> tokens_drawn w' = Suc (tokens_drawn w)
       \<and> uuids_drawn w' = uuids_drawn w
       \<and> (\<exists>es. trace w' = trace w @ Commit # es \<and> list_all is_remote es
               \<and> (\<not> notify \<longrightarrow> list_all (\<lambda>e. \<not> is_send_message e) es))
       \<and> (res = Inr r
            \<or> (\<exists>e. res = Inl e \<and> \<not> isinstance_Exception e \<and> (\<exists>h c. remote D h c = Inl e)))"
proof (cases "truthy_str (gw_url g)")
  case False
  then have "provision_main_agent_record D g r user action notify w
               = (Inr r, locally_provisioned D r action w)"
    by (cases "gw_url g")
       (simp_all add: provision_main_agent_record_def provision_local_eq [OF assms(1)])
  with assms(2) show ?thesis
    by (auto simp add: locally_provisioned_def)
next
  case True
  then obtain u where u: "gw_url g = Some u" "u \<noteq> []"
    by (cases "gw_url g") auto
  obtain out w12 where out: "provision_remote D g u r user action notify (session_key D g)
       (token_source D (tokens_drawn w)) (locally_provisioned D r action w) = (out, w12)"
    by (cases "provision_remote D g u r user action notify (session_key D g)
       (token_source D (tokens_drawn w)) (locally_provisioned D r action w)") auto
  note fr = provision_remote_frame [OF out]
  from assms(2) have res: "res = Inr r \<or> (\<exists>e. res = Inl e \<and> out = Inl e \<and> \<not> isinstance_Exception e)"
    and w': "session w' = session w12 \<and> committed w' = committed w12 \<and> trace w' = trace w12
        \<and> clock_reads w' = clock_reads w12 \<and> tokens_drawn w' = tokens_drawn w12
        \<and> uuids_drawn w' = uuids_drawn w12"
    by (auto simp add: provision_main_agent_record_def provision_local_eq [OF assms(1)] u out
        log_msg_def split: sum.splits if_splits)
  from res fr w' show ?thesis
    by (auto simp add: locally_provisioned_def)
qed

lemma all_remote_map: "list_all is_remote es \<Longrightarrow> \<exists>calls. es = map Remote calls"
proof (induction es)
  case Nil
  then show ?case by simp
next
  case (Cons e es)
  then obtain calls where "es = map Remote calls" by auto
  moreover from Cons.prems obtain c where "e = Remote c" by (cases e) auto
  ultimately have "e # es = map Remote (c # calls)" by simp
  then show ?case by (rule exI)
qed

lemma provision_result:
  "fst (provision_main_agent_record D g r user action notify w) = Inr r
   \<or> (\<exists>e. fst (provision_main_agent_record D g r user action notify w) = Inl e
          \<and> \<not> isinstance_Exception e \<and> (\<exists>h c. remote D h c = Inl e))"
proof -
  obtain raw w11 where l: "provision_local D r action w = (raw, w11)"
    by (cases "provision_local D r action w") auto
  show ?thesis
  proof (cases "truthy_str (gw_url g)")
    case False
    then show ?thesis
      by (cases "gw_url g") (simp_all add: provision_main_agent_record_def l)
  next
    case True
    then obtain u where u: "gw_url g = Some u" "u \<noteq> []"
      by (cases "gw_url g") auto
    obtain out w12 where out:
      "provision_remote D g u r user action notify (session_key D g) raw w11 = (out, w12)"
      by (cases "provision_remote D g u r user action notify (session_key D g) raw w11") auto
    from provision_remote_frame [OF out]
    have "\<forall>e. out = Inl e \<longrightarrow> (\<exists>h c. remote D h c = Inl e)" by blast
    then show ?thesis
      by (auto simp add: provision_main_agent_record_def l u out split: sum.splits)
  qed
qed

text \<open>
  Claim C2. Credential durability precedes remote risk. Whatever the remote side does,
  once \<open>provision_main_agent_record\<close> is over the committed row of the agent carries the
  hash of the token generated by this call, the clock read of this call as
  \<open>provision_requested_at\<close>, and the action. What the call adds to the history is one
  commit followed by remote calls only, and the session holds nothing that is not
  committed: every local change and the commit come before the first remote call. When every
  remote call raises the gateway error the method still returns the agent.
\<close>

theorem provision_main_agent_record_durable:
  assumes "r < length (agents (session w))"
    and "provision_main_agent_record D gateway r user action notify w = (res, w')"
  shows "ag_agent_token_hash (agents (committed w') ! r)
           = Some (hash_agent_token D (token_source D (tokens_drawn w)))
       \<and> ag_provision_requested_at (agents (committed w') ! r) = Some (clock D (clock_reads w))
       \<and> ag_provision_action (agents (committed w') ! r) = Some action
       \<and> session w' = committed w'
       \<and> (\<exists>calls. trace w' = trace w @ Commit # map Remote calls)
       \<and> ((\<forall>h c. \<exists>m. remote D h c = Inl (OpenClawGatewayError m)) \<longrightarrow> res = Inr r)"
proof -
  note eff = provision_effect [OF assms]
  from eff assms(1) have fields:
    "agents (committed w') ! r = provisioned_agent D action w (agent_at w r)"
    by (simp add: locally_provisioned_def)
  from eff obtain es where "trace w' = trace w @ Commit # es" "list_all is_remote es"
    by blast
  with all_remote_map [of es] have tr: "\<exists>calls. trace w' = trace w @ Commit # map Remote calls"
    by auto
  have swallowed: "res = Inr r" if down: "\<forall>h c. \<exists>m. remote D h c = Inl (OpenClawGatewayError m)"
  proof -
    from eff have "res = Inr r
        \<or> (\<exists>e. res = Inl e \<and> \<not> isinstance_Exception e \<and> (\<exists>h c. remote D h c = Inl e))"
      by blast
    then show ?thesis
    proof
      assume "res = Inr r" then show ?thesis .
    next
      assume "\<exists>e. res = Inl e \<and> \<not> isinstance_Exception e \<and> (\<exists>h c. remote D h c = Inl e)"
      then obtain e h c where e: "\<not> isinstance_Exception e" "remote D h c = Inl e" by blast
      from down obtain m where "remote D h c = Inl (OpenClawGatewayError m)" by blast
      with e have "\<not> isinstance_Exception (OpenClawGatewayError m)" by simp
      then show ?thesis by simp
    qed
  qed
  from eff fields tr swallowed show ?thesis
    by (simp add: provisioned_agent_def)
qed

text \<open>The edge gateway unreachable: the rotation of the credential of its agent is
  committed all the same, and the agent is returned.\<close>

lemma settled_facts:
  "length (agents (session settled_world)) = 1"
  "tokens_drawn settled_world = 0"
  "clock_reads settled_world = 0"
  "trace settled_world = []"
  by (simp_all add: settled_world_def empty_world_def empty_db_def)

lemma remote_down_always:
  "\<forall>h c. \<exists>m. remote (example_deps remote_down) h c = Inl (OpenClawGatewayError m)"
  by (simp add: example_deps_def remote_down_def)

theorem provision_main_agent_record_durable_witness:
  "fst (provision_main_agent_record (example_deps remote_down) edge_gateway 0 None
          ''reprovision'' True settled_world) = Inr 0
   \<and> ag_agent_token_hash (agents (committed (snd (provision_main_agent_record
          (example_deps remote_down) edge_gateway 0 None ''reprovision'' True settled_world))) ! 0)
       = Some ''pbkdf2:k''
   \<and> ag_provision_requested_at (agents (committed (snd (provision_main_agent_record
          (example_deps remote_down) edge_gateway 0 None ''reprovision'' True settled_world))) ! 0)
       = Some 1000
   \<and> ag_provision_action (agents (committed (snd (provision_main_agent_record
          (example_deps remote_down) edge_gateway 0 None ''reprovision'' True settled_world))) ! 0)
       = Some ''reprovision''"
proof -
  let ?p = "provision_main_agent_record (example_deps remote_down) edge_gateway 0 None
          ''reprovision'' True settled_world"
  have r: "0 < length (agents (session settled_world))" by (simp add: settled_facts)
  have p: "?p = (fst ?p, snd ?p)" by simp
  have v: "hash_agent_token (example_deps remote_down)
             (token_source (example_deps remote_down) (tokens_drawn settled_world)) = ''pbkdf2:k''"
    "clock (example_deps remote_down) (clock_reads settled_world) = 1000"
    by (simp_all add: settled_facts example_deps_def)
  from provision_main_agent_record_durable [OF r p] remote_down_always v
  show ?thesis by simp
qed

text \<open>
  Claim C3. Swallow versus propagate. \<open>provision_main_agent_record\<close> never raises the
  gateway error to its caller, and when the remote calls fail with gateway errors only it
  returns the agent. In \<open>dispatch_start_prompt\<close>, when the message send raises an
  exception \<open>e\<close>: if \<open>e\<close> is the gateway error the caller receives the exception that the
  error mapping makes of \<open>e\<close> for the operation \<open>ONBOARDING_START_DISPATCH\<close>; if \<open>e\<close> is
  neither the gateway error nor a timeout the caller receives \<open>e\<close> itself.
\<close>

theorem gateway_error_swallowed_or_translated:
  "(\<forall>m. fst (provision_main_agent_record D gateway r user action notify w)
          \<noteq> Inl (OpenClawGatewayError m))
   \<and> ((\<forall>h c e. remote D h c = Inl e \<longrightarrow> isinstance_OpenClawGatewayError e)
        \<longrightarrow> fst (provision_main_agent_record D gateway r user action notify w) = Inr r)
   \<and> (\<forall>gw config e.
         require_gateway_config_for_board D brd = Inr (gw, config)
         \<and> remote D (trace w)
              (DispatchGatewayMessage (session_key D gw) config ''Gateway Agent'' prompt False)
             = Inl e
         \<longrightarrow> (isinstance_OpenClawGatewayError e
                \<longrightarrow> fst (dispatch_start_prompt D brd prompt w)
                    = Inl (map_gateway_error_to_http_exception D ONBOARDING_START_DISPATCH e))
           \<and> (\<not> isinstance_OpenClawGatewayError e \<and> \<not> isinstance_TimeoutError e
                \<longrightarrow> fst (dispatch_start_prompt D brd prompt w) = Inl e))"
proof (intro conjI allI impI)
  fix m
  show "fst (provision_main_agent_record D gateway r user action notify w)
          \<noteq> Inl (OpenClawGatewayError m)"
    using provision_result [of D gateway r user action notify w] by auto
next
  assume only: "\<forall>h c e. remote D h c = Inl e \<longrightarrow> isinstance_OpenClawGatewayError e"
  from provision_result [of D gateway r user action notify w]
  show "fst (provision_main_agent_record D gateway r user action notify w) = Inr r"
  proof
    assume "fst (provision_main_agent_record D gateway r user action notify w) = Inr r"
    then show ?thesis .
  next
    assume "\<exists>e. fst (provision_main_agent_record D gateway r user action notify w) = Inl e
          \<and> \<not> isinstance_Exception e \<and> (\<exists>h c. remote D h c = Inl e)"
    then obtain e h c where e: "\<not> isinstance_Exception e" "remote D h c = Inl e" by blast
    with only have "isinstance_OpenClawGatewayError e" by blast
    with e show ?thesis by (cases e) simp_all
  qed
next
  fix gw config e
  assume a: "require_gateway_config_for_board D brd = Inr (gw, config)
         \<and> remote D (trace w)
              (DispatchGatewayMessage (session_key D gw) config ''Gateway Agent'' prompt False)
             = Inl e"
  {
    assume "isinstance_OpenClawGatewayError e"
    with a show "fst (dispatch_start_prompt D brd prompt w)
                    = Inl (map_gateway_error_to_http_exception D ONBOARDING_START_DISPATCH e)"
      by (simp add: dispatch_start_prompt_def call_remote_def log_msg_def Let_def)
  }
  {
    assume "\<not> isinstance_OpenClawGatewayError e \<and> \<not> isinstance_TimeoutError e"
    with a show "fst (dispatch_start_prompt D brd prompt w) = Inl e"
      by (simp add: dispatch_start_prompt_def call_remote_def log_msg_def Let_def)
  }
qed

text \<open>The same gateway error is swallowed by the provisioner and reaches the caller of
  the dispatcher as the mapped exception; a \<open>ValueError\<close> reaches it as it is.\<close>

theorem gateway_error_swallowed_or_translated_witness:
  "fst (provision_main_agent_record (example_deps remote_down) edge_gateway 0 None
          ''reprovision'' True settled_world) = Inr 0
   \<and> fst (dispatch_start_prompt (example_deps remote_down) edge_board ''What is the goal?''
            settled_world) = Inl (HTTPException 502 ''Bad Gateway'')
   \<and> fst (dispatch_start_prompt (example_deps remote_broken) edge_board ''What is the goal?''
            settled_world) = Inl (ValueError ''malformed frame'')"
proof -
  have only: "\<forall>h c e. remote (example_deps remote_down) h c = Inl e
                \<longrightarrow> isinstance_OpenClawGatewayError e"
    by (auto simp add: example_deps_def remote_down_def)
  have down: "require_gateway_config_for_board (example_deps remote_down) edge_board
                = Inr (edge_gateway, edge_config)
      \<and> remote (example_deps remote_down) (trace settled_world)
           (DispatchGatewayMessage (session_key (example_deps remote_down) edge_gateway)
              edge_config ''Gateway Agent'' ''What is the goal?'' False)
          = Inl (OpenClawGatewayError ''unreachable'')"
    by (simp add: example_deps_def remote_down_def)
  have broken: "require_gateway_config_for_board (example_deps remote_broken) edge_board
                = Inr (edge_gateway, edge_config)
      \<and> remote (example_deps remote_broken) (trace settled_world)
           (DispatchGatewayMessage (session_key (example_deps remote_broken) edge_gateway)
              edge_config ''Gateway Agent'' ''What is the goal?'' False)
          = Inl (ValueError ''malformed frame'')"
    by (simp add: example_deps_def remote_broken_def)
  have m: "map_gateway_error_to_http_exception (example_deps remote_down)
             ONBOARDING_START_DISPATCH (OpenClawGatewayError ''unreachable'')
           = HTTPException 502 ''Bad Gateway''"
    by (simp add: example_deps_def)
  from gateway_error_swallowed_or_translated
         [of "example_deps remote_down" edge_gateway 0 None "''reprovision''" True settled_world
             edge_board "''What is the goal?''"] only down
  have 1: "fst (provision_main_agent_record (example_deps remote_down) edge_gateway 0 None
          ''reprovision'' True settled_world) = Inr 0"
    and 2: "fst (dispatch_start_prompt (example_deps remote_down) edge_board ''What is the goal?''
            settled_world) = Inl (map_gateway_error_to_http_exception (example_deps remote_down)
             ONBOARDING_START_DISPATCH (OpenClawGatewayError ''unreachable''))"
    by (blast, metis isinstance_OpenClawGatewayError.simps(1))
  from gateway_error_swallowed_or_translated
         [of "example_deps remote_broken" edge_gateway 0 None "''reprovision''" True settled_world
             edge_board "''What is the goal?''"] broken
  have 3: "fst (dispatch_start_prompt (example_deps remote_broken) edge_board ''What is the goal?''
            settled_world) = Inl (ValueError ''malformed frame'')"
    by (metis isinstance_OpenClawGatewayError.simps(5) isinstance_TimeoutError.simps(5))
  from 1 2 3 m show ?thesis by simp
qed

section \<open>The sweep: \<open>ensure_gateway_agents_exist\<close>\<close>







lemma no_send_append:
  "list_all (\<lambda>e. \<not> is_send_message e) es \<Longrightarrow>
     filter is_send_message (xs @ es) = filter is_send_message xs"
  by (induction es) (auto simp: list_all_iff filter_empty_conv)




















section \<open>Cascading cleanup: \<open>clear_agent_foreign_keys\<close>\<close>

lemma clear_agent_foreign_keys_eq:
  "clear_agent_foreign_keys D X w =
     w\<lparr> clock_reads := Suc (clock_reads w),
        session := (session w)
          \<lparr> tasks := update_rows
               (\<lambda>t. task_assigned_agent_id t = Some X \<and> task_status t \<noteq> ''in_progress'')
               (\<lambda>t. t\<lparr>task_assigned_agent_id := None, task_updated_at := clock D (clock_reads w)\<rparr>)
               (update_rows
                  (\<lambda>t. task_assigned_agent_id t = Some X \<and> task_status t = ''in_progress'')
                  (\<lambda>t. t\<lparr>task_assigned_agent_id := None, task_status := ''inbox'',
                          task_in_progress_at := None,
                          task_updated_at := clock D (clock_reads w)\<rparr>)
                  (tasks (session w))),
            activity_events := update_rows (\<lambda>e. ev_agent_id e = Some X)
               (\<lambda>e. e\<lparr>ev_agent_id := None\<rparr>) (activity_events (session w)),
            approvals := update_rows (\<lambda>p. ap_agent_id p = Some X)
               (\<lambda>p. p\<lparr>ap_agent_id := None\<rparr>) (approvals (session w)) \<rparr> \<rparr>"
  by (cases w, cases "session w")
     (simp add: clear_agent_foreign_keys_def utcnow_def update_where_Task_def
        update_where_ActivityEvent_def update_where_Approval_def Let_def)

text \<open>
  Claim C6. After \<open>clear_agent_foreign_keys\<close> for an agent id: every task that was
  assigned to the agent and in progress has the status \<open>inbox\<close>, no assignee and no
  \<open>in_progress_at\<close>; every other task that was assigned to the agent has no assignee and
  the status it had; every activity event and every approval that referred to the agent
  refers to no agent; the rows that did not refer to the agent are as they were. Nothing
  is committed by the four updates: the committed state and the history are unchanged, the
  caller owns the transaction.
\<close>

theorem clear_agent_foreign_keys_effect:
  "length (tasks (session (clear_agent_foreign_keys D X w))) = length (tasks (session w))
   \<and> (\<forall>i < length (tasks (session w)).
         (task_assigned_agent_id (tasks (session w) ! i) = Some X
            \<and> task_status (tasks (session w) ! i) = ''in_progress''
          \<longrightarrow> task_status (tasks (session (clear_agent_foreign_keys D X w)) ! i) = ''inbox''
            \<and> task_assigned_agent_id (tasks (session (clear_agent_foreign_keys D X w)) ! i) = None
            \<and> task_in_progress_at (tasks (session (clear_agent_foreign_keys D X w)) ! i) = None)
       \<and> (task_assigned_agent_id (tasks (session w) ! i) = Some X
            \<and> task_status (tasks (session w) ! i) \<noteq> ''in_progress''
          \<longrightarrow> task_assigned_agent_id (tasks (session (clear_agent_foreign_keys D X w)) ! i) = None
            \<and> task_status (tasks (session (clear_agent_foreign_keys D X w)) ! i)
                = task_status (tasks (session w) ! i))
       \<and> (task_assigned_agent_id (tasks (session w) ! i) \<noteq> Some X
          \<longrightarrow> tasks (session (clear_agent_foreign_keys D X w)) ! i = tasks (session w) ! i))
   \<and> length (activity_events (session (clear_agent_foreign_keys D X w)))
       = length (activity_events (session w))
   \<and> (\<forall>i < length (activity_events (session w)).
         (ev_agent_id (activity_events (session w) ! i) = Some X
          \<longrightarrow> ev_agent_id (activity_events (session (clear_agent_foreign_keys D X w)) ! i) = None)
       \<and> (ev_agent_id (activity_events (session w) ! i) \<noteq> Some X
          \<longrightarrow> activity_events (session (clear_agent_foreign_keys D X w)) ! i
              = activity_events (session w) ! i))
   \<and> length (approvals (session (clear_agent_foreign_keys D X w)))
       = length (approvals (session w))
   \<and> (\<forall>i < length (approvals (session w)).
         (ap_agent_id (approvals (session w) ! i) = Some X
          \<longrightarrow> ap_agent_id (approvals (session (clear_agent_foreign_keys D X w)) ! i) = None)
       \<and> (ap_agent_id (approvals (session w) ! i) \<noteq> Some X
          \<longrightarrow> approvals (session (clear_agent_foreign_keys D X w)) ! i
              = approvals (session w) ! i))
   \<and> committed (clear_agent_foreign_keys D X w) = committed w
   \<and> trace (clear_agent_foreign_keys D X w) = trace w"
  by (simp add: clear_agent_foreign_keys_eq update_rows_def)

text \<open>The scenario of the specification: agent 41 with an in-progress task, a done
  task, an activity event and an approval; a third task belongs to agent 42.\<close>

lemma cleanup_rows:
  "tasks (session cleanup_world) =
     [\<lparr> task_id = 1, task_status = ''in_progress'', task_assigned_agent_id = Some 41,
        task_in_progress_at = Some 950, task_updated_at = 950 \<rparr>,
      \<lparr> task_id = 2, task_status = ''done'', task_assigned_agent_id = Some 41,
        task_in_progress_at = Some 910, task_updated_at = 930 \<rparr>,
      \<lparr> task_id = 3, task_status = ''in_progress'', task_assigned_agent_id = Some 42,
        task_in_progress_at = Some 960, task_updated_at = 960 \<rparr>]"
  "activity_events (session cleanup_world) = [\<lparr> ev_id = 1, ev_agent_id = Some 41 \<rparr>]"
  "approvals (session cleanup_world) = [\<lparr> ap_id = 1, ap_agent_id = Some 41 \<rparr>]"
  "committed cleanup_world = cleanup_db"
  by (simp_all add: cleanup_world_def cleanup_db_def empty_world_def)

theorem clear_agent_foreign_keys_effect_witness:
  "task_status (tasks (session (clear_agent_foreign_keys (example_deps remote_down) 41
       cleanup_world)) ! 0) = ''inbox''
   \<and> task_assigned_agent_id (tasks (session (clear_agent_foreign_keys
       (example_deps remote_down) 41 cleanup_world)) ! 0) = None
   \<and> task_in_progress_at (tasks (session (clear_agent_foreign_keys
       (example_deps remote_down) 41 cleanup_world)) ! 0) = None
   \<and> task_status (tasks (session (clear_agent_foreign_keys (example_deps remote_down) 41
       cleanup_world)) ! 1) = ''done''
   \<and> task_assigned_agent_id (tasks (session (clear_agent_foreign_keys
       (example_deps remote_down) 41 cleanup_world)) ! 1) = None
   \<and> task_assigned_agent_id (tasks (session (clear_agent_foreign_keys
       (example_deps remote_down) 41 cleanup_world)) ! 2) = Some 42
   \<and> ev_agent_id (activity_events (session (clear_agent_foreign_keys
       (example_deps remote_down) 41 cleanup_world)) ! 0) = None
   \<and> ap_agent_id (approvals (session (clear_agent_foreign_keys
       (example_deps remote_down) 41 cleanup_world)) ! 0) = None
   \<and> committed (clear_agent_foreign_keys (example_deps remote_down) 41 cleanup_world)
       = cleanup_db"
proof -
  note T = clear_agent_foreign_keys_effect [of "example_deps remote_down" 41 cleanup_world]
  note tasks = T [THEN conjunct2, THEN conjunct1, rule_format]
  note events = T [THEN conjunct2, THEN conjunct2, THEN conjunct2, THEN conjunct1, rule_format]
  note approvals = T [THEN conjunct2, THEN conjunct2, THEN conjunct2, THEN conjunct2,
      THEN conjunct2, THEN conjunct1, rule_format]
  note rest = T [THEN conjunct2, THEN conjunct2, THEN conjunct2, THEN conjunct2,
      THEN conjunct2, THEN conjunct2]
  from tasks [of 0] tasks [of 1] tasks [of 2] events [of 0] approvals [of 0] rest
  show ?thesis by (simp add: cleanup_rows)
qed

end
